theory Spec2Isabelle
  imports Main "HOL-Library.Sublist" "HOL-Library.Word"
begin

section \<open>go-dropbox: dispatcher, endpoint operations, listing and the file handle\<close>

text \<open>
  A shallow embedding of \<^verbatim>\<open>files.go\<close> (the endpoint operations and \<^verbatim>\<open>normalizePath\<close>)
  and of the client file (\<^verbatim>\<open>call\<close>, \<^verbatim>\<open>download\<close>, \<^verbatim>\<open>pipe\<close>, \<^verbatim>\<open>do\<close>, \<^verbatim>\<open>ListN\<close>
  and the \<^verbatim>\<open>File\<close> handle). Go methods are named \<open>Receiver_method\<close>. Strings are byte
  lists. What the Go standard library does (\<^verbatim>\<open>net/http\<close>, \<^verbatim>\<open>encoding/json\<close>, \<^verbatim>\<open>io\<close>) is
  modelled beside the code, each place saying what it stands for.
\<close>

subsection \<open>Errors\<close>

datatype errno = ENOENT | EINVAL

text \<open>
  \<^verbatim>\<open>json.Marshal\<close> of a request record and the JSON text of a reply are kept as value
  trees: an object is the list of its members in the order of the struct's fields, a
  string is the bytes of its value in UTF-8. How the encoder escapes a character in the
  text does not change the value and is not modelled.
\<close>

datatype jvalue =
    JNull
  | JBool bool
  | JNumber int
  | JString string
  | JArray "jvalue list"
  | JObject "(string \<times> jvalue) list"

text \<open>
  The value of the string that \<^verbatim>\<open>json.Marshal\<close> writes for a Go string. The encoder
  walks the bytes with \<^verbatim>\<open>utf8.DecodeRuneInString\<close>: \<open>utf8_size\<close> is the size of the encoding
  at the head of the bytes, 0 when the head byte starts no valid encoding. Such a byte
  is replaced by U+FFFD (the bytes EF BF BD); a valid encoding is kept.
\<close>

definition utf8_cont :: "char \<Rightarrow> bool" where
  "utf8_cont c = (0x80 \<le> (of_char c :: nat) \<and> (of_char c :: nat) \<le> 0xBF)"

definition utf8_size :: "string \<Rightarrow> nat" where
  "utf8_size s =
     (case s of
        [] \<Rightarrow> 0
      | c # cs \<Rightarrow>
          let b0 = (of_char c :: nat)
          in if b0 < 0x80 then 1
             else if b0 < 0xC2 \<or> 0xF4 < b0 then 0
             else
               let sz = (if b0 < 0xE0 then 2 else if b0 < 0xF0 then 3 else 4) :: nat;
                   lo = (if b0 = 0xE0 then 0xA0 else if b0 = 0xF0 then 0x90 else 0x80) :: nat;
                   hi = (if b0 = 0xED then 0x9F else if b0 = 0xF4 then 0x8F else 0xBF) :: nat
               in if length s < sz then 0
                  else if (of_char (cs ! 0) :: nat) < lo \<or> hi < (of_char (cs ! 0) :: nat) then 0
                  else if sz \<le> 2 then 2
                  else if \<not> utf8_cont (cs ! 1) then 0
                  else if sz \<le> 3 then 3
                  else if \<not> utf8_cont (cs ! 2) then 0
                  else 4)"

text \<open>\<^verbatim>\<open>utf8.ValidString\<close>.\<close>

fun utf8_ValidString :: "string \<Rightarrow> bool" where
  "utf8_ValidString [] = True"
| "utf8_ValidString (c # cs) =
     (utf8_size (c # cs) \<noteq> 0 \<and> utf8_ValidString (drop (utf8_size (c # cs) - 1) cs))"

fun json_string :: "string \<Rightarrow> string" where
  "json_string [] = []"
| "json_string (c # cs) =
     (if utf8_size (c # cs) = 0 then [CHR 0xEF, CHR 0xBF, CHR 0xBD] @ json_string cs
      else c # take (utf8_size (c # cs) - 1) cs @ json_string (drop (utf8_size (c # cs) - 1) cs))"

text \<open>
  Modelled from the spec: the \<^verbatim>\<open>Error\<close> type is declared in a file that is not among the
  sources. The spec's service error carries the HTTP status text, the numeric status
  code, and either a free-form summary (plain-text body) or the decoded JSON payload.
\<close>

record Error =
  Status :: string
  StatusCode :: int
  Summary :: string
  Payload :: "jvalue option"

datatype error =
    PathError string string errno
  | ServiceError Error
  | TransportError string
  | ReadError string
  | SyntaxError string
  | EOF
  | ErrClosedPipe
  | ErrBodyReadAfterClose
  | NilDereference

fun errno_Error :: "errno \<Rightarrow> string" where
  "errno_Error ENOENT = ''no such file or directory''"
| "errno_Error EINVAL = ''invalid argument''"

text \<open>
  Modelled from the spec: the method \<^verbatim>\<open>(*Error).Error\<close> is not among the sources. The
  spec reads the text of a service error from its decoded body: the summary of a
  plain-text body, the member \<^verbatim>\<open>error_summary\<close> of a JSON payload.
\<close>

definition Error_Error :: "Error \<Rightarrow> string" where
  "Error_Error e =
     (case Payload e of
        Some (JObject kvs) \<Rightarrow>
          (case map_of kvs ''error_summary'' of
             Some (JString s) \<Rightarrow> s
           | _ \<Rightarrow> Summary e)
      | _ \<Rightarrow> Summary e)"

text \<open>
  \<^verbatim>\<open>err.Error()\<close>: the text of an error value. \<open>NilDereference\<close> stands for the
  run-time panic of a call through a nil pointer: where it appears the Go function does
  not return.
\<close>

fun error_Error :: "error \<Rightarrow> string" where
  "error_Error (PathError opn path e) = opn @ '' '' @ path @ '': '' @ errno_Error e"
| "error_Error (ServiceError e) = Error_Error e"
| "error_Error (TransportError s) = s"
| "error_Error (ReadError s) = s"
| "error_Error (SyntaxError s) = s"
| "error_Error EOF = ''EOF''"
| "error_Error ErrClosedPipe = ''io: read/write on closed pipe''"
| "error_Error ErrBodyReadAfterClose = ''http: read on closed response body''"
| "error_Error NilDereference = ''runtime error: invalid memory address or nil pointer dereference''"

subsection \<open>Requests, responses and the HTTP client\<close>

text \<open>
  A response body is a byte source: its bytes, the error a read meets after them
  (\<open>None\<close>: end of stream), the error its \<^verbatim>\<open>Close\<close> returns, whether it has been
  closed, and how many bytes have been read so far. Two more fields say how this body
  behaves where the \<^verbatim>\<open>io.Reader\<close> contract leaves a choice, since the HTTP client is
  pluggable: \<open>eof_with_data\<close>, whether the read that returns the last bytes reports the
  end with them (as a \<^verbatim>\<open>net/http\<close> body of known length does) or the next read does;
  \<open>after_close\<close>, the error of a read after \<^verbatim>\<open>Close\<close> (a \<^verbatim>\<open>net/http\<close> body fails such a
  read), \<open>None\<close> when the body goes on reading.
\<close>

record Body =
  content :: string
  failure :: "error option"
  close_err :: "error option"
  bclosed :: bool
  consumed :: nat
  eof_with_data :: bool
  after_close :: "error option"

definition Body_closed :: "Body \<Rightarrow> error option" where
  "Body_closed b = (if bclosed b then after_close b else None)"

record Response =
  StatusCode :: int
  Header :: "(string \<times> string) list"
  Body :: Body
  ContentLength :: int

text \<open>\<^verbatim>\<open>Header.Get\<close> on a response: the value stored under the key, or the empty string.\<close>

definition Header_Get :: "(string \<times> string) list \<Rightarrow> string \<Rightarrow> string" where
  "Header_Get h k = (case map_of h k of None \<Rightarrow> [] | Some v \<Rightarrow> v)"

text \<open>
  A request header value is a plain string or \<^verbatim>\<open>string(body)\<close> of a marshalled record.
  A request body is absent (\<^verbatim>\<open>nil\<close>), the marshalled record of a control call, or the
  reader handed to a content call: a byte reader, or the read end of a handle's pipe.
\<close>

datatype hvalue = Plain string | Marshalled jvalue

datatype reader = BytesReader string | PipeReader

datatype rbody = NoBody | JSONBody jvalue | ReaderBody reader

record Request =
  Method :: string
  URL :: string
  ReqHeader :: "(string \<times> hvalue) list"
  ReqBody :: rbody

text \<open>\<^verbatim>\<open>Header.Set\<close>: replaces the value under the key, or adds the key.\<close>

fun Header_Set :: "(string \<times> hvalue) list \<Rightarrow> string \<Rightarrow> hvalue \<Rightarrow> (string \<times> hvalue) list" where
  "Header_Set [] k v = [(k, v)]"
| "Header_Set ((k', v') # h) k v = (if k' = k then (k, v) # h else (k', v') # Header_Set h k v)"

text \<open>
  \<^verbatim>\<open>c.HTTPClient.Do\<close> is a scripted transport: every call is logged in \<open>sent\<close> and
  answered by the next reply of \<open>script\<close>, a transport error or a response. The code's
  behaviour depends on the service only through the replies it receives, so a script is
  any service. A script that has run out answers with a transport error. The log holds
  the requests as the code hands them to the HTTP client.
\<close>

record world =
  script :: "(error + Response) list"
  sent :: "Request list"

definition HTTPClient_Do :: "Request \<Rightarrow> world \<Rightarrow> (error + Response) \<times> world" where
  "HTTPClient_Do req w =
     (case script w of
        [] \<Rightarrow> (Inl (TransportError ''no reply''), w\<lparr>sent := sent w @ [req]\<rparr>)
      | r # rs \<Rightarrow> (r, w\<lparr>script := rs, sent := sent w @ [req]\<rparr>))"

text \<open>\<^verbatim>\<open>io.ReadAll\<close> on a body: all its bytes, or the error a read meets.\<close>

definition io_ReadAll :: "Body \<Rightarrow> error + string" where
  "io_ReadAll b =
     (case Body_closed b of
        Some e \<Rightarrow> Inl e
      | None \<Rightarrow>
          (case failure b of
             Some e \<Rightarrow> Inl e
           | None \<Rightarrow> Inr (drop (consumed b) (content b))))"

text \<open>
  \<^verbatim>\<open>json.NewDecoder(body).Decode(v)\<close>. The decoder of each target type is a parameter:
  it maps the bytes of the body, and the error that ends them, to the decoded value or
  to a decoding error. What is fixed is what the decoder does on a body with no bytes:
  it returns the read error, which is \<^verbatim>\<open>io.EOF\<close> at the end of the stream. Decoding into
  a nil pointer (\<^verbatim>\<open>Decode(&out)\<close>) gives \<open>None\<close> for the JSON literal \<^verbatim>\<open>null\<close>, which leaves
  the pointer nil.
\<close>

type_synonym 'a decoder = "string \<Rightarrow> error option \<Rightarrow> error + 'a"

definition Decode :: "'a decoder \<Rightarrow> Body \<Rightarrow> error + 'a" where
  "Decode dec b =
     (case Body_closed b of
        Some e \<Rightarrow> Inl e
      | None \<Rightarrow>
          if drop (consumed b) (content b) = [] then
            Inl (case failure b of None \<Rightarrow> EOF | Some e \<Rightarrow> e)
          else dec (drop (consumed b) (content b)) (failure b))"

text \<open>\<^verbatim>\<open>http.StatusText\<close>: the text of the status codes of \<^verbatim>\<open>net/http\<close>, empty otherwise.\<close>

definition StatusText :: "int \<Rightarrow> string" where
  "StatusText code =
     (case map_of
        [(100, ''Continue''), (101, ''Switching Protocols''), (102, ''Processing''),
         (103, ''Early Hints''), (200, ''OK''), (201, ''Created''), (202, ''Accepted''),
         (203, ''Non-Authoritative Information''), (204, ''No Content''),
         (205, ''Reset Content''), (206, ''Partial Content''), (207, ''Multi-Status''),
         (208, ''Already Reported''), (226, ''IM Used''), (300, ''Multiple Choices''),
         (301, ''Moved Permanently''), (302, ''Found''), (303, ''See Other''),
         (304, ''Not Modified''), (305, ''Use Proxy''), (307, ''Temporary Redirect''),
         (308, ''Permanent Redirect''), (400, ''Bad Request''), (401, ''Unauthorized''),
         (402, ''Payment Required''), (403, ''Forbidden''), (404, ''Not Found''),
         (405, ''Method Not Allowed''), (406, ''Not Acceptable''),
         (407, ''Proxy Authentication Required''), (408, ''Request Timeout''),
         (409, ''Conflict''), (410, ''Gone''), (411, ''Length Required''),
         (412, ''Precondition Failed''), (413, ''Request Entity Too Large''),
         (414, ''Request URI Too Long''), (415, ''Unsupported Media Type''),
         (416, ''Requested Range Not Satisfiable''), (417, ''Expectation Failed''),
         (418, ''I'' @ [CHR 0x27] @ ''m a teapot''), (421, ''Misdirected Request''),
         (422, ''Unprocessable Entity''), (423, ''Locked''), (424, ''Failed Dependency''),
         (425, ''Too Early''), (426, ''Upgrade Required''), (428, ''Precondition Required''),
         (429, ''Too Many Requests''), (431, ''Request Header Fields Too Large''),
         (451, ''Unavailable For Legal Reasons''), (500, ''Internal Server Error''),
         (501, ''Not Implemented''), (502, ''Bad Gateway''), (503, ''Service Unavailable''),
         (504, ''Gateway Timeout''), (505, ''HTTP Version Not Supported''),
         (506, ''Variant Also Negotiates''), (507, ''Insufficient Storage''),
         (508, ''Loop Detected''), (510, ''Not Extended''),
         (511, ''Network Authentication Required'')] code of
        None \<Rightarrow> []
      | Some s \<Rightarrow> s)"

text \<open>\<^verbatim>\<open>strings.Contains\<close> and \<^verbatim>\<open>strings.HasPrefix\<close>.\<close>

definition strings_Contains :: "string \<Rightarrow> string \<Rightarrow> bool" where
  "strings_Contains s substr = sublist substr s"

definition strings_HasPrefix :: "string \<Rightarrow> string \<Rightarrow> bool" where
  "strings_HasPrefix s pre = prefix pre s"

subsection \<open>The data model of files.go\<close>

type_synonym WriteMode = string

definition WriteModeAdd :: WriteMode where
  "WriteModeAdd = ''add''"

definition WriteModeOverwrite :: WriteMode where
  "WriteModeOverwrite = ''overwrite''"

text \<open>
  Metadata for a file or folder. Instants (\<^verbatim>\<open>time.Time\<close>) are integers. The optional
  media record, which holds floating-point coordinates, is left out; no operation below
  reads it.
\<close>

record FileSharingInfo =
  ReadOnly :: bool
  ParentSharedFolderID :: string
  ModifiedBy :: string

record Metadata =
  Tag :: string
  Name :: string
  PathLower :: string
  PathDisplay :: string
  ClientModified :: int
  ServerModified :: int
  Rev :: string
  Size :: "64 word"
  ID :: string
  SharingInfo :: "FileSharingInfo option"
  ContentHash :: string

record GetMetadataInput =
  Path :: string
  IncludeMediaInfo :: bool

record ListFolderInput =
  Path :: string
  Recursive :: bool
  IncludeMediaInfo :: bool
  IncludeDeleted :: bool

record ListFolderOutput =
  Cursor :: string
  HasMore :: bool
  Entries :: "Metadata list"

record ListFolderContinueInput =
  Cursor :: string

record DownloadInput =
  Path :: string

record DownloadOutput =
  Body :: "Body option"
  Length :: int

record UploadInput =
  Path :: string
  Mode :: WriteMode
  AutoRename :: bool
  Mute :: bool
  ClientModified :: string
  Reader :: "reader option"

text \<open>
  \<^verbatim>\<open>json.Marshal\<close> of the request records, by their field tags. It does not fail on
  these types. \<^verbatim>\<open>client_modified\<close> is \<^verbatim>\<open>omitempty\<close> and \<^verbatim>\<open>Reader\<close> is skipped. Every
  string goes through \<open>json_string\<close>.
\<close>

definition json_GetMetadataInput :: "GetMetadataInput \<Rightarrow> jvalue" where
  "json_GetMetadataInput inp =
     JObject [(''path'', JString (json_string (GetMetadataInput.Path inp))),
              (''include_media_info'', JBool (GetMetadataInput.IncludeMediaInfo inp))]"

definition json_ListFolderInput :: "ListFolderInput \<Rightarrow> jvalue" where
  "json_ListFolderInput inp =
     JObject [(''path'', JString (json_string (ListFolderInput.Path inp))),
              (''recursive'', JBool (Recursive inp)),
              (''include_media_info'', JBool (ListFolderInput.IncludeMediaInfo inp)),
              (''include_deleted'', JBool (IncludeDeleted inp))]"

definition json_ListFolderContinueInput :: "ListFolderContinueInput \<Rightarrow> jvalue" where
  "json_ListFolderContinueInput inp =
     JObject [(''cursor'', JString (json_string (ListFolderContinueInput.Cursor inp)))]"

definition json_DownloadInput :: "DownloadInput \<Rightarrow> jvalue" where
  "json_DownloadInput inp = JObject [(''path'', JString (json_string (DownloadInput.Path inp)))]"

definition json_UploadInput :: "UploadInput \<Rightarrow> jvalue" where
  "json_UploadInput inp =
     JObject ([(''path'', JString (json_string (UploadInput.Path inp))),
               (''mode'', JString (json_string (Mode inp))),
               (''autorename'', JBool (AutoRename inp)),
               (''mute'', JBool (Mute inp))]
              @ (if UploadInput.ClientModified inp = [] then []
                 else [(''client_modified'', JString (json_string (UploadInput.ClientModified inp)))]))"

text \<open>The decoders of the reply types (see \<open>Decode\<close>).\<close>

record codec =
  dec_payload :: "jvalue decoder"
  dec_metadata :: "Metadata option decoder"
  dec_listing :: "ListFolderOutput option decoder"

record Client =
  AccessToken :: string

subsection \<open>The request dispatcher\<close>

text \<open>
  \<^verbatim>\<open>Client.do\<close> returns Go's triple: the body (\<open>None\<close> is nil), the length and the
  error (\<open>None\<close> is nil). A transport error is returned as it is. Below status 400 the
  body and the advertised length are handed over unread. From 400 on a service error is
  built from the status. A \<^verbatim>\<open>text/plain\<close> body is read into its summary; when that read
  fails, the \<^verbatim>\<open>err\<close> returned is not the read's (that one is local to the \<^verbatim>\<open>if\<close>
  statement) but the variable assigned by \<^verbatim>\<open>c.HTTPClient.Do\<close>, which holds nil there.
  Any other body is decoded as JSON into the service error, and a failing decoding
  returns its error. The deferred \<^verbatim>\<open>res.Body.Close()\<close> closes a body that is not handed
  on.
\<close>

definition Client_do ::
  "codec \<Rightarrow> Request \<Rightarrow> world \<Rightarrow> (Body option \<times> int \<times> error option) \<times> world" where
  "Client_do J req w =
     (case HTTPClient_Do req w of
        (Inl err, w') \<Rightarrow> ((None, 0, Some err), w')
      | (Inr res, w') \<Rightarrow>
          let err = None
          in if Response.StatusCode res < 400 then
               ((Some (Response.Body res), ContentLength res, err), w')
             else
               let e = \<lparr>Status = StatusText (Response.StatusCode res),
                        StatusCode = Response.StatusCode res,
                        Summary = [], Payload = None\<rparr>;
                   kind = Header_Get (Header res) ''Content-Type''
               in if strings_Contains kind ''text/plain'' then
                    (case io_ReadAll (Response.Body res) of
                       Inr b \<Rightarrow> ((None, 0, Some (ServiceError (e\<lparr>Summary := b\<rparr>))), w')
                     | Inl err' \<Rightarrow> ((None, 0, err), w'))
                  else
                    (case Decode (dec_payload J) (Response.Body res) of
                       Inl err \<Rightarrow> ((None, 0, Some err), w')
                     | Inr v \<Rightarrow> ((None, 0, Some (ServiceError (e\<lparr>Payload := Some v\<rparr>))), w')))"

text \<open>
  \<^verbatim>\<open>Client.call\<close>, the control call. \<open>inp\<close> is the marshalled request record.
  \<^verbatim>\<open>http.NewRequest\<close> does not fail on the method and the URLs used here.
\<close>

definition Client_call ::
  "codec \<Rightarrow> Client \<Rightarrow> string \<Rightarrow> jvalue \<Rightarrow> world \<Rightarrow> (Body option \<times> error option) \<times> world" where
  "Client_call J c path inp w =
     (let url = ''https://api.dropboxapi.com/2'' @ path;
          req = \<lparr>Method = ''POST'', URL = url, ReqHeader = [], ReqBody = JSONBody inp\<rparr>;
          req = req\<lparr>ReqHeader :=
                  Header_Set (ReqHeader req) ''Authorization'' (Plain (''Bearer '' @ AccessToken c))\<rparr>;
          req = req\<lparr>ReqHeader :=
                  Header_Set (ReqHeader req) ''Content-Type'' (Plain ''application/json'')\<rparr>
      in case Client_do J req w of
           ((r, l, err), w') \<Rightarrow> ((r, err), w'))"

text \<open>\<^verbatim>\<open>Client.download\<close>, the content call: the record travels in a header.\<close>

definition Client_download ::
  "codec \<Rightarrow> Client \<Rightarrow> string \<Rightarrow> jvalue \<Rightarrow> reader option \<Rightarrow> world
     \<Rightarrow> (Body option \<times> int \<times> error option) \<times> world" where
  "Client_download J c path inp r w =
     (let url = ''https://content.dropboxapi.com/2'' @ path;
          req = \<lparr>Method = ''POST'', URL = url, ReqHeader = [],
                 ReqBody = (case r of None \<Rightarrow> NoBody | Some rd \<Rightarrow> ReaderBody rd)\<rparr>;
          req = req\<lparr>ReqHeader :=
                  Header_Set (ReqHeader req) ''Authorization'' (Plain (''Bearer '' @ AccessToken c))\<rparr>;
          req = req\<lparr>ReqHeader :=
                  Header_Set (ReqHeader req) ''Dropbox-API-Arg'' (Marshalled inp)\<rparr>;
          req = (if r \<noteq> None then
                   req\<lparr>ReqHeader :=
                     Header_Set (ReqHeader req) ''Content-Type'' (Plain ''application/octet-stream'')\<rparr>
                 else req)
      in Client_do J req w)"

text \<open>
  \<^verbatim>\<open>Client.pipe\<close>, the raw stream call: the filter, when given, rewrites the headers,
  and the reply of the HTTP client is returned as it is.
\<close>

definition Client_pipe ::
  "Client \<Rightarrow> string \<Rightarrow> jvalue \<Rightarrow> ((string \<times> hvalue) list \<Rightarrow> (string \<times> hvalue) list) option
     \<Rightarrow> world \<Rightarrow> (error + Response) \<times> world" where
  "Client_pipe c path inp flt w =
     (let url = ''https://content.dropboxapi.com/2'' @ path;
          req = \<lparr>Method = ''POST'', URL = url, ReqHeader = [], ReqBody = NoBody\<rparr>;
          req = req\<lparr>ReqHeader :=
                  Header_Set (ReqHeader req) ''Authorization'' (Plain (''Bearer '' @ AccessToken c))\<rparr>;
          req = req\<lparr>ReqHeader :=
                  Header_Set (ReqHeader req) ''Dropbox-API-Arg'' (Marshalled inp)\<rparr>;
          req = (case flt of
                   Some f \<Rightarrow> req\<lparr>ReqHeader := f (ReqHeader req)\<rparr>
                 | None \<Rightarrow> req)
      in HTTPClient_Do req w)"

subsection \<open>The endpoint operations\<close>

definition normalizePath :: "string \<Rightarrow> string" where
  "normalizePath s = (if s = ''/'' then [] else s)"

text \<open>
  Each operation returns what the Go function returns and the world after it: the
  error, or the decoded output (\<open>None\<close>: the pointer left nil). When the dispatcher
  hands over a nil body with a nil error, \<^verbatim>\<open>defer body.Close()\<close> is a call through a nil
  interface and the operation panics.
\<close>

definition Files_GetMetadata ::
  "codec \<Rightarrow> Client \<Rightarrow> GetMetadataInput \<Rightarrow> world \<Rightarrow> (error + Metadata option) \<times> world" where
  "Files_GetMetadata J c inp w =
     (case Client_call J c ''/files/get_metadata'' (json_GetMetadataInput inp) w of
        ((body, Some err), w') \<Rightarrow> (Inl err, w')
      | ((None, None), w') \<Rightarrow> (Inl NilDereference, w')
      | ((Some body, None), w') \<Rightarrow> (Decode (dec_metadata J) body, w'))"

text \<open>
  \<^verbatim>\<open>Files.ListFolder\<close> writes the normalized path into the record its caller passed
  (\<^verbatim>\<open>in\<close> is a pointer): the record after the call is the second component.
\<close>

definition Files_ListFolder ::
  "codec \<Rightarrow> Client \<Rightarrow> ListFolderInput \<Rightarrow> world
     \<Rightarrow> (error + ListFolderOutput option) \<times> ListFolderInput \<times> world" where
  "Files_ListFolder J c inp w =
     (let inp = inp\<lparr>ListFolderInput.Path := normalizePath (ListFolderInput.Path inp)\<rparr>
      in case Client_call J c ''/files/list_folder'' (json_ListFolderInput inp) w of
           ((body, Some err), w') \<Rightarrow> (Inl err, inp, w')
         | ((None, None), w') \<Rightarrow> (Inl NilDereference, inp, w')
         | ((Some body, None), w') \<Rightarrow> (Decode (dec_listing J) body, inp, w'))"

definition Files_ListFolderContinue ::
  "codec \<Rightarrow> Client \<Rightarrow> ListFolderContinueInput \<Rightarrow> world
     \<Rightarrow> (error + ListFolderOutput option) \<times> world" where
  "Files_ListFolderContinue J c inp w =
     (case Client_call J c ''/files/list_folder/continue'' (json_ListFolderContinueInput inp) w of
        ((body, Some err), w') \<Rightarrow> (Inl err, w')
      | ((None, None), w') \<Rightarrow> (Inl NilDereference, w')
      | ((Some body, None), w') \<Rightarrow> (Decode (dec_listing J) body, w'))"

text \<open>\<^verbatim>\<open>Files.Download\<close> wraps the body it is handed, nil or not.\<close>

definition Files_Download ::
  "codec \<Rightarrow> Client \<Rightarrow> DownloadInput \<Rightarrow> world \<Rightarrow> (error + DownloadOutput) \<times> world" where
  "Files_Download J c inp w =
     (case Client_download J c ''/files/download'' (json_DownloadInput inp) None w of
        ((body, l, Some err), w') \<Rightarrow> (Inl err, w')
      | ((body, l, None), w') \<Rightarrow> (Inr \<lparr>Body = body, Length = l\<rparr>, w'))"

definition Files_Upload ::
  "codec \<Rightarrow> Client \<Rightarrow> UploadInput \<Rightarrow> world \<Rightarrow> (error + Metadata option) \<times> world" where
  "Files_Upload J c inp w =
     (case Client_download J c ''/files/upload'' (json_UploadInput inp) (Reader inp) w of
        ((body, l, Some err), w') \<Rightarrow> (Inl err, w')
      | ((None, l, None), w') \<Rightarrow> (Inl NilDereference, w')
      | ((Some body, l, None), w') \<Rightarrow> (Decode (dec_metadata J) body, w'))"

definition Files_Stream ::
  "Client \<Rightarrow> DownloadInput \<Rightarrow> ((string \<times> hvalue) list \<Rightarrow> (string \<times> hvalue) list) option
     \<Rightarrow> world \<Rightarrow> (error + Response) \<times> world" where
  "Files_Stream c inp reqFilter w = Client_pipe c ''/files/download'' (json_DownloadInput inp) reqFilter w"

definition Client_GetStream ::
  "Client \<Rightarrow> string \<Rightarrow> ((string \<times> hvalue) list \<Rightarrow> (string \<times> hvalue) list) option
     \<Rightarrow> world \<Rightarrow> (error + Response) \<times> world" where
  "Client_GetStream c name reqFilter w = Files_Stream c \<lparr>DownloadInput.Path = name\<rparr> reqFilter w"

subsection \<open>The file handle\<close>

text \<open>
  \<^verbatim>\<open>io.Pipe\<close>: the two ends \<^verbatim>\<open>pipeR\<close> and \<^verbatim>\<open>pipeW\<close> of a handle are one pipe. \<open>stream\<close>
  is the bytes the read end has taken so far, \<open>wclosed\<close> says that the write end has
  been closed, and \<open>rclosed\<close> is the error the read end was closed with.

  The pipe has no buffer: a write hands its bytes to a read and returns when they are
  taken, so what a write does depends on who reads. The one reader of a handle's pipe is
  the goroutine of \<^verbatim>\<open>File.Write\<close>, inside \<^verbatim>\<open>Files.Upload\<close>, where the HTTP client reads the
  pipe as the request body. \<open>reading\<close> is that reader while it runs: how many more bytes
  the HTTP client reads before it returns (\<open>None\<close>: it reads to the end of the stream),
  and the error \<^verbatim>\<open>Files.Upload\<close> returns then. \<open>eof_seen\<close> says that the reader has read
  the stream to its end.
\<close>

record pipe =
  stream :: string
  wclosed :: bool
  rclosed :: "error option"
  reading :: "(nat option \<times> error option) option"
  eof_seen :: bool

text \<open>
  \<^verbatim>\<open>PipeReader.CloseWithError\<close>: a nil error closes with \<^verbatim>\<open>ErrClosedPipe\<close>, and an
  error already stored is kept.
\<close>

definition PipeReader_CloseWithError :: "pipe \<Rightarrow> error option \<Rightarrow> pipe" where
  "PipeReader_CloseWithError p err =
     (case rclosed p of
        Some e \<Rightarrow> p
      | None \<Rightarrow> p\<lparr>rclosed := Some (case err of None \<Rightarrow> ErrClosedPipe | Some e \<Rightarrow> e)\<rparr>)"

text \<open>
  The end of the goroutine: the HTTP client has stopped reading the body (\<open>eof\<close>: at
  the end of the stream), \<^verbatim>\<open>Files.Upload\<close> returns its error and
  \<^verbatim>\<open>f.pipeR.CloseWithError(err)\<close> closes the read end. The goroutine is run to this point
  as soon as the client has nothing more to read; a write that comes later finds the
  same closed read end as one that is waiting when the goroutine gets there.
\<close>

definition reader_ends :: "pipe \<Rightarrow> bool \<Rightarrow> pipe" where
  "reader_ends p eof =
     (case reading p of
        None \<Rightarrow> p
      | Some (d, err) \<Rightarrow> PipeReader_CloseWithError (p\<lparr>reading := None, eof_seen := eof\<rparr>) err)"

text \<open>
  The start of the reader: the HTTP client has the request and reads \<open>d\<close> bytes of
  its body; a client that reads none is done at once.
\<close>

definition reader_starts :: "pipe \<Rightarrow> nat option \<Rightarrow> error option \<Rightarrow> pipe" where
  "reader_starts p d err =
     (if d = Some 0 then reader_ends (p\<lparr>reading := Some (d, err)\<rparr>) False
      else p\<lparr>reading := Some (d, err)\<rparr>)"

text \<open>
  \<^verbatim>\<open>PipeWriter.Write\<close> returns \<^verbatim>\<open>ErrClosedPipe\<close> once the write end is closed, and the
  read end's error once the read end is closed. On an open pipe it blocks until a reader
  has taken every byte or the read end is closed: with no reader it does not return
  (\<open>None\<close>); a reader that still reads at least the bytes of \<open>b\<close> takes them all; a reader
  that stops after \<open>k\<close> of them ends there, and the write returns \<open>k\<close> and the error the
  read end is closed with, unless these \<open>k\<close> bytes were all of a non-empty \<open>b\<close>.
\<close>

definition PipeWriter_Write :: "pipe \<Rightarrow> string \<Rightarrow> (nat \<times> error option) option \<times> pipe" where
  "PipeWriter_Write p b =
     (if wclosed p then (Some (0, Some ErrClosedPipe), p)
      else case rclosed p of
             Some e \<Rightarrow> (Some (0, Some e), p)
           | None \<Rightarrow>
               (case reading p of
                  None \<Rightarrow> (None, p)
                | Some (None, err) \<Rightarrow> (Some (length b, None), p\<lparr>stream := stream p @ b\<rparr>)
                | Some (Some k, err) \<Rightarrow>
                    if length b < k then
                      (Some (length b, None),
                       p\<lparr>stream := stream p @ b, reading := Some (Some (k - length b), err)\<rparr>)
                    else
                      let p' = reader_ends (p\<lparr>stream := stream p @ take k b\<rparr>) False
                      in if k < length b \<or> b = [] then (Some (k, rclosed p'), p')
                         else (Some (length b, None), p')))"

text \<open>
  \<^verbatim>\<open>PipeWriter.Close\<close> always returns nil. A reader that is still reading meets the end
  of the stream and ends.
\<close>

definition PipeWriter_Close :: "pipe \<Rightarrow> error option \<times> pipe" where
  "PipeWriter_Close p = (None, reader_ends (p\<lparr>wclosed := True\<rparr>) True)"

text \<open>
  The request body as the HTTP client has read it from the read end, once it has read
  it to the end.
\<close>

definition PipeReader_body :: "pipe \<Rightarrow> string option" where
  "PipeReader_body p = (if eof_seen p then Some (stream p) else None)"

text \<open>
  \<^verbatim>\<open>Read\<close> and \<^verbatim>\<open>Close\<close> of a response body. A read returns at most \<open>n\<close> bytes (the
  length of the buffer); the end of the bytes is reported by \<^verbatim>\<open>io.EOF\<close> or by the body's
  failure, with the last bytes or by the next read, as the body does it.
\<close>

definition Body_Read :: "Body \<Rightarrow> nat \<Rightarrow> (string \<times> error option) \<times> Body" where
  "Body_Read b n =
     (case Body_closed b of
        Some e \<Rightarrow> (([], Some e), b)
      | None \<Rightarrow>
          let rest = drop (consumed b) (content b);
              fin = (case failure b of None \<Rightarrow> EOF | Some e \<Rightarrow> e)
          in if rest = [] then (([], Some fin), b)
             else if length rest \<le> n \<and> eof_with_data b then
               ((rest, Some fin), b\<lparr>consumed := consumed b + length rest\<rparr>)
             else ((take n rest, None), b\<lparr>consumed := consumed b + min n (length rest)\<rparr>))"

definition Body_Close :: "Body \<Rightarrow> error option \<times> Body" where
  "Body_Close b = (close_err b, b\<lparr>bclosed := True\<rparr>)"

text \<open>
  The handle. \<open>pipe\<close> holds both \<^verbatim>\<open>pipeR\<close> and \<^verbatim>\<open>pipeW\<close>; \<open>client\<close> is the field \<^verbatim>\<open>c\<close>.
\<close>

record File =
  Name :: string
  closed :: bool
  writing :: bool
  reader :: "Body option"
  pipe :: pipe
  client :: Client

text \<open>
  What a handle's operations act on: the HTTP client's world, and how that client
  treats a request body that is streamed to it: \<open>body_reads\<close> is the number of bytes it
  reads before it returns its reply, \<open>None\<close> when it reads the body to its end.
\<close>

record runtime =
  http :: world
  body_reads :: "nat option"

definition Client_Open :: "Client \<Rightarrow> string \<Rightarrow> File" where
  "Client_Open c name =
     \<lparr>Name = name, closed = False, writing = False, reader = None,
      pipe = \<lparr>stream = [], wclosed = False, rclosed = None, reading = None, eof_seen = False\<rparr>,
      client = c\<rparr>"

definition File_download :: "codec \<Rightarrow> File \<Rightarrow> world \<Rightarrow> error option \<times> File \<times> world" where
  "File_download J f w =
     (case Files_Download J (client f) \<lparr>DownloadInput.Path = File.Name f\<rparr> w of
        (Inl err, w') \<Rightarrow>
          if strings_HasPrefix (error_Error err) ''path/not_found/'' then
            (Some (PathError ''open'' (File.Name f) ENOENT), f, w')
          else (Some err, f, w')
      | (Inr out, w') \<Rightarrow> (None, f\<lparr>reader := DownloadOutput.Body out\<rparr>, w'))"

text \<open>
  \<^verbatim>\<open>File.Read\<close> with a buffer of \<open>n\<close> bytes: the bytes read and the error. The handle's
  flags are not consulted. When the download has stored a nil body, \<^verbatim>\<open>f.reader.Read\<close> is
  a call through a nil interface.
\<close>

definition File_Read ::
  "codec \<Rightarrow> File \<Rightarrow> nat \<Rightarrow> runtime \<Rightarrow> (string \<times> error option) \<times> File \<times> runtime" where
  "File_Read J f n rt =
     (case (if reader f = None then File_download J f (http rt) else (None, f, http rt)) of
        (Some err, f', w') \<Rightarrow> (([], Some err), f', rt\<lparr>http := w'\<rparr>)
      | (None, f', w') \<Rightarrow>
          (case reader f' of
             None \<Rightarrow> (([], Some NilDereference), f', rt\<lparr>http := w'\<rparr>)
           | Some b \<Rightarrow>
               let (r, b') = Body_Read b n
               in (r, f'\<lparr>reader := Some b'\<rparr>, rt\<lparr>http := w'\<rparr>)))"

text \<open>
  The goroutine of \<^verbatim>\<open>File.Write\<close> up to the point where the HTTP client reads the
  request body: \<^verbatim>\<open>Files.Upload\<close> is called on the record with the handle's path and the
  read end of its pipe, its request goes to the HTTP client and is answered by the next
  reply, and the error the call will return is kept with the reader for its end.
\<close>

definition uploader :: "codec \<Rightarrow> File \<Rightarrow> runtime \<Rightarrow> File \<times> runtime" where
  "uploader J f rt =
     (case Files_Upload J (client f)
             \<lparr>Path = File.Name f, Mode = WriteModeOverwrite, AutoRename = False,
              Mute = True, ClientModified = [], Reader = Some PipeReader\<rparr> (http rt) of
        (r, w') \<Rightarrow>
          (f\<lparr>pipe := reader_starts (pipe f) (body_reads rt)
                        (case r of Inl err \<Rightarrow> Some err | Inr out \<Rightarrow> None)\<rparr>,
           rt\<lparr>http := w'\<rparr>))"

text \<open>
  \<^verbatim>\<open>File.Write\<close>: the first write sets the flag and launches the goroutine, every write
  then goes to the pipe. \<open>None\<close>: the write does not return.
\<close>

definition File_Write ::
  "codec \<Rightarrow> File \<Rightarrow> string \<Rightarrow> runtime \<Rightarrow> (nat \<times> error option) option \<times> File \<times> runtime" where
  "File_Write J f b rt =
     (let (f, rt) = (if \<not> writing f then uploader J (f\<lparr>writing := True\<rparr>) rt else (f, rt));
          (r, p) = PipeWriter_Write (pipe f) b
      in (r, f\<lparr>pipe := p\<rparr>, rt))"

definition File_Close :: "File \<Rightarrow> error option \<times> File" where
  "File_Close f =
     (if closed f then (Some (PathError ''close'' (File.Name f) EINVAL), f)
      else
        let f = f\<lparr>closed := True\<rparr>;
            (werr, f) =
              (if writing f then
                 (let (err, p) = PipeWriter_Close (pipe f) in (err, f\<lparr>pipe := p\<rparr>))
               else (None, f))
        in case werr of
             Some err \<Rightarrow> (Some err, f)
           | None \<Rightarrow>
               (case reader f of
                  Some b \<Rightarrow> (let (err, b') = Body_Close b in (err, f\<lparr>reader := Some b'\<rparr>))
                | None \<Rightarrow> (None, f)))"

text \<open>
  A run of a handle: the caller's calls in their order, with their results. A write
  that does not return ends the run.
\<close>

datatype event = Read nat | Write string | Close

datatype result =
    ReadResult string "error option"
  | WriteResult nat "error option"
  | WriteBlocked
  | CloseResult "error option"

fun File_step :: "codec \<Rightarrow> event \<Rightarrow> File \<times> runtime \<Rightarrow> result \<times> File \<times> runtime" where
  "File_step J (Read n) (f, rt) =
     (case File_Read J f n rt of ((b, err), f', rt') \<Rightarrow> (ReadResult b err, f', rt'))"
| "File_step J (Write b) (f, rt) =
     (case File_Write J f b rt of
        (Some (n, err), f', rt') \<Rightarrow> (WriteResult n err, f', rt')
      | (None, f', rt') \<Rightarrow> (WriteBlocked, f', rt'))"
| "File_step J Close (f, rt) =
     (case File_Close f of (err, f') \<Rightarrow> (CloseResult err, f', rt))"

fun File_run :: "codec \<Rightarrow> event list \<Rightarrow> File \<times> runtime \<Rightarrow> result list \<times> File \<times> runtime" where
  "File_run J [] (f, rt) = ([], f, rt)"
| "File_run J (ev # evs) (f, rt) =
     (case File_step J ev (f, rt) of
        (r, f', rt') \<Rightarrow>
          if r = WriteBlocked then ([r], f', rt')
          else (case File_run J evs (f', rt') of (rs, f'', rt'') \<Rightarrow> (r # rs, f'', rt'')))"

subsection \<open>The listing\<close>

text \<open>\<^verbatim>\<open>FileInfo\<close> wraps a metadata record.\<close>

datatype FileInfo = FileInfo (meta: Metadata)

definition FileInfo_Name :: "FileInfo \<Rightarrow> string" where
  "FileInfo_Name f = Metadata.Name (meta f)"

definition FileInfo_IsDir :: "FileInfo \<Rightarrow> bool" where
  "FileInfo_IsDir f = (Tag (meta f) = ''folder'')"

text \<open>
  The end of \<^verbatim>\<open>ListN\<close>, after the loop: with a cap that is still non-negative an empty
  list is reported as \<^verbatim>\<open>io.EOF\<close>.
\<close>

definition ListN_return :: "int \<Rightarrow> FileInfo list \<Rightarrow> FileInfo list \<times> error option" where
  "ListN_return n list = (if n \<ge> 0 \<and> length list = 0 then (list, Some EOF) else (list, None))"

text \<open>A call that the HTTP client answers takes one reply from the script.\<close>

lemma HTTPClient_Do_script:
  "HTTPClient_Do req w = (Inr res, w') \<Longrightarrow> length (script w') < length (script w)"
  by (auto simp: HTTPClient_Do_def split: list.splits)

lemma Client_do_script:
  "Client_do J req w = ((Some b, l, err), w') \<Longrightarrow> length (script w') < length (script w)"
  by (auto simp: Client_do_def Let_def split: prod.splits sum.splits if_splits
      dest: HTTPClient_Do_script)

lemma Client_call_script:
  "Client_call J c path inp w = ((Some b, err), w') \<Longrightarrow> length (script w') < length (script w)"
  by (auto simp: Client_call_def Let_def split: prod.splits dest: Client_do_script)

lemma Files_ListFolder_script:
  "Files_ListFolder J c inp w = (Inr x, inp', w') \<Longrightarrow> length (script w') < length (script w)"
  by (auto simp: Files_ListFolder_def Let_def split: prod.splits option.splits
      dest: Client_call_script)

lemma Files_ListFolderContinue_script:
  "Files_ListFolderContinue J c inp w = (Inr x, w') \<Longrightarrow> length (script w') < length (script w)"
  by (auto simp: Files_ListFolderContinue_def split: prod.splits option.splits
      dest: Client_call_script)

text \<open>
  The loop of \<^verbatim>\<open>ListN\<close>, from the state \<open>cursor\<close>, \<open>list\<close>. A listing call that fails
  returns the list collected so far with the error. The loop takes one reply per turn,
  so on a script it ends; a service that reports more pages for ever keeps it running.
\<close>

function ListN_loop ::
  "codec \<Rightarrow> Client \<Rightarrow> string \<Rightarrow> int \<Rightarrow> string \<Rightarrow> FileInfo list \<Rightarrow> world
     \<Rightarrow> (FileInfo list \<times> error option) \<times> world" where
  "ListN_loop J c name n cursor list w =
     (case (if cursor = [] then
              (case Files_ListFolder J c
                      \<lparr>ListFolderInput.Path = name, Recursive = False,
                       ListFolderInput.IncludeMediaInfo = False, IncludeDeleted = False\<rparr> w of
                 (r, inp, w') \<Rightarrow> (r, w'))
            else Files_ListFolderContinue J c \<lparr>ListFolderContinueInput.Cursor = cursor\<rparr> w) of
        (Inl err, w') \<Rightarrow> ((list, Some err), w')
      | (Inr None, w') \<Rightarrow> ((list, Some NilDereference), w')
      | (Inr (Some out), w') \<Rightarrow>
          let list = list @ map FileInfo (Entries out)
          in if n \<ge> 0 \<and> int (length list) \<ge> n then (ListN_return n (take (nat n) list), w')
             else if \<not> HasMore out then (ListN_return n list, w')
             else ListN_loop J c name n (ListFolderOutput.Cursor out) list w')"
  by pat_completeness auto
termination
  by (relation "measure (\<lambda>(J, c, name, n, cursor, list, w). length (script w))")
     (auto split: if_splits prod.splits
        dest: Files_ListFolder_script Files_ListFolderContinue_script
              Files_ListFolder_script [OF sym] Files_ListFolderContinue_script [OF sym])

declare ListN_loop.simps [simp del]

text \<open>\<^verbatim>\<open>Client.ListN\<close> and \<^verbatim>\<open>Client.List\<close>.\<close>

definition Client_ListN ::
  "codec \<Rightarrow> Client \<Rightarrow> string \<Rightarrow> int \<Rightarrow> world \<Rightarrow> (FileInfo list \<times> error option) \<times> world" where
  "Client_ListN J c name n w =
     (let n = (if n \<le> 0 then - 1 else n)
      in ListN_loop J c name n [] [] w)"

definition Client_List ::
  "codec \<Rightarrow> Client \<Rightarrow> string \<Rightarrow> world \<Rightarrow> (FileInfo list \<times> error option) \<times> world" where
  "Client_List J c name w = Client_ListN J c name 0 w"

text \<open>
  The service's side of a listing. A reply carries the page \<open>p\<close> when it is a response
  below status 400 whose body decodes to \<open>p\<close>; the entries of a sequence of pages are
  the file infos of their entries, page after page.
\<close>

definition listing_reply :: "codec \<Rightarrow> error + Response \<Rightarrow> ListFolderOutput \<Rightarrow> bool" where
  "listing_reply J r p =
     (case r of
        Inl err \<Rightarrow> False
      | Inr res \<Rightarrow>
          Response.StatusCode res < 400 \<and>
          Decode (dec_listing J) (Response.Body res) = Inr (Some p))"

definition entries_of :: "ListFolderOutput list \<Rightarrow> FileInfo list" where
  "entries_of pages = map FileInfo (concat (map Entries pages))"

subsection \<open>Reading the log of the HTTP client\<close>

text \<open>
  The record a request carries on the wire: the body of a control call, the header
  \<^verbatim>\<open>Dropbox-API-Arg\<close> of a content call; and its member \<^verbatim>\<open>path\<close>.
\<close>

definition wire_arg :: "Request \<Rightarrow> jvalue option" where
  "wire_arg req =
     (case ReqBody req of
        JSONBody v \<Rightarrow> Some v
      | _ \<Rightarrow> (case map_of (ReqHeader req) ''Dropbox-API-Arg'' of
                Some (Marshalled v) \<Rightarrow> Some v
              | _ \<Rightarrow> None))"

definition wire_path :: "Request \<Rightarrow> jvalue option" where
  "wire_path req =
     (case wire_arg req of
        Some (JObject kvs) \<Rightarrow> map_of kvs ''path''
      | _ \<Rightarrow> None)"

subsection \<open>Concrete instances\<close>

text \<open>
  A client, replies and decoders for the examples. The decoders know the bodies of the
  examples and reject every other text.
\<close>

definition example_client :: Client where
  "example_client = \<lparr>AccessToken = ''token''\<rparr>"

definition example_body :: "string \<Rightarrow> Body" where
  "example_body s =
     \<lparr>content = s, failure = None, close_err = None, bclosed = False, consumed = 0,
      eof_with_data = True, after_close = Some ErrBodyReadAfterClose\<rparr>"

definition example_response :: "int \<Rightarrow> string \<Rightarrow> string \<Rightarrow> Response" where
  "example_response code kind s =
     \<lparr>Response.StatusCode = code, Header = [(''Content-Type'', kind)],
      Response.Body = example_body s, ContentLength = int (length s)\<rparr>"

definition example_entry :: "string \<Rightarrow> string \<Rightarrow> Metadata" where
  "example_entry tag name =
     \<lparr>Tag = tag, Metadata.Name = name, PathLower = ''/'' @ name, PathDisplay = ''/'' @ name,
      Metadata.ClientModified = 0, ServerModified = 0, Rev = ''1'', Size = 0, ID = ''id:'' @ name,
      SharingInfo = None, ContentHash = []\<rparr>"

definition example_not_found :: string where
  \<open>example_not_found =
     ''{"error_summary":"path/not_found/..","error":{".tag":"path","path":{".tag":"not_found"}}}''\<close>

definition example_not_found_payload :: jvalue where
  "example_not_found_payload =
     JObject [(''error_summary'', JString ''path/not_found/..''),
              (''error'', JObject [(''.tag'', JString ''path''),
                                   (''path'', JObject [(''.tag'', JString ''not_found'')])])]"

definition example_codec :: codec where
  "example_codec =
     \<lparr>dec_payload = (\<lambda>s f.
        if s = example_not_found then Inr example_not_found_payload
        else Inl (SyntaxError ''invalid character'')),
      dec_metadata = (\<lambda>s f.
        if s = ''metadata'' then Inr (Some (example_entry ''file'' ''hello.txt''))
        else Inl (SyntaxError ''invalid character'')),
      dec_listing = (\<lambda>s f.
        if s = ''page1'' then
          Inr (Some \<lparr>ListFolderOutput.Cursor = ''c1'', HasMore = True,
                     Entries = map (example_entry ''file'') [''a'', ''b'', ''c'']\<rparr>)
        else if s = ''page2'' then
          Inr (Some \<lparr>ListFolderOutput.Cursor = ''c2'', HasMore = True,
                     Entries = map (example_entry ''file'') [''d'', ''e'', ''f'']\<rparr>)
        else if s = ''page3'' then
          Inr (Some \<lparr>ListFolderOutput.Cursor = ''c3'', HasMore = False,
                     Entries = map (example_entry ''file'') [''g'', ''h'', ''i'']\<rparr>)
        else if s = ''empty'' then
          Inr (Some \<lparr>ListFolderOutput.Cursor = ''c0'', HasMore = False, Entries = []\<rparr>)
        else Inl (SyntaxError ''invalid character''))\<rparr>"

definition example_missing :: runtime where
  "example_missing =
     \<lparr>http = \<lparr>script = [Inr (example_response 409 ''application/json'' example_not_found)],
              sent = []\<rparr>, body_reads = None\<rparr>"

definition example_download :: runtime where
  "example_download =
     \<lparr>http = \<lparr>script = [Inr (example_response 200 ''application/octet-stream'' ''data'')],
              sent = []\<rparr>, body_reads = None\<rparr>"

text \<open>
  A service that answers an upload with the metadata of the file, behind an HTTP client
  that reads the request body to its end, and behind one that reads two bytes of it.
\<close>

definition example_upload :: runtime where
  "example_upload =
     \<lparr>http = \<lparr>script = [Inr (example_response 200 ''application/json'' ''metadata'')],
              sent = []\<rparr>, body_reads = None\<rparr>"

definition example_short_upload :: runtime where
  "example_short_upload = example_upload\<lparr>body_reads := Some 2\<rparr>"

text \<open>A listing of three pages of three entries, and an empty listing.\<close>

definition example_pages :: "ListFolderOutput list" where
  "example_pages =
     [\<lparr>ListFolderOutput.Cursor = ''c1'', HasMore = True,
       Entries = map (example_entry ''file'') [''a'', ''b'', ''c'']\<rparr>,
      \<lparr>ListFolderOutput.Cursor = ''c2'', HasMore = True,
       Entries = map (example_entry ''file'') [''d'', ''e'', ''f'']\<rparr>,
      \<lparr>ListFolderOutput.Cursor = ''c3'', HasMore = False,
       Entries = map (example_entry ''file'') [''g'', ''h'', ''i'']\<rparr>]"

definition example_listing :: "(error + Response) list" where
  "example_listing =
     [Inr (example_response 200 ''application/json'' ''page1''),
      Inr (example_response 200 ''application/json'' ''page2''),
      Inr (example_response 200 ''application/json'' ''page3'')]"

definition example_empty_listing :: "(error + Response) list" where
  "example_empty_listing = [Inr (example_response 200 ''application/json'' ''empty'')]"

section \<open>Properties\<close>

subsection \<open>JSON strings\<close>

lemma json_string_valid: "utf8_ValidString s \<Longrightarrow> json_string s = s"
  by (induction s rule: json_string.induct) auto

subsection \<open>What each operation sends\<close>

lemma sent_HTTPClient_Do: "sent (snd (HTTPClient_Do req w)) = sent w @ [req]"
  by (simp add: HTTPClient_Do_def split: list.splits)

lemma sent_Client_do: "sent (snd (Client_do J req w)) = sent w @ [req]"
  using sent_HTTPClient_Do [of req w]
  by (auto simp: Client_do_def Let_def split: prod.splits sum.splits)

lemma sent_Client_call:
  "sent (snd (Client_call J c path inp w)) =
     sent w @ [\<lparr>Method = ''POST'', URL = ''https://api.dropboxapi.com/2'' @ path,
                ReqHeader = [(''Authorization'', Plain (''Bearer '' @ AccessToken c)),
                             (''Content-Type'', Plain ''application/json'')],
                ReqBody = JSONBody inp\<rparr>]"
  (is "_ = sent w @ [?req]")
proof -
  have "sent (snd (Client_do J ?req w)) = sent w @ [?req]"
    by (rule sent_Client_do)
  then show ?thesis
    by (auto simp: Client_call_def Let_def split: prod.splits)
qed

lemma sent_Client_download:
  "sent (snd (Client_download J c path inp r w)) =
     sent w @ [\<lparr>Method = ''POST'', URL = ''https://content.dropboxapi.com/2'' @ path,
                ReqHeader = [(''Authorization'', Plain (''Bearer '' @ AccessToken c)),
                             (''Dropbox-API-Arg'', Marshalled inp)]
                            @ (case r of None \<Rightarrow> []
                               | Some rd \<Rightarrow> [(''Content-Type'', Plain ''application/octet-stream'')]),
                ReqBody = (case r of None \<Rightarrow> NoBody | Some rd \<Rightarrow> ReaderBody rd)\<rparr>]"
  (is "_ = sent w @ [?req]")
proof -
  have "sent (snd (Client_do J ?req w)) = sent w @ [?req]"
    by (rule sent_Client_do)
  then show ?thesis
    by (cases r) (auto simp: Client_download_def Let_def split: prod.splits)
qed

lemma sent_Client_pipe:
  "sent (snd (Client_pipe c path inp flt w)) =
     sent w @ [\<lparr>Method = ''POST'', URL = ''https://content.dropboxapi.com/2'' @ path,
                ReqHeader =
                  (case flt of
                     None \<Rightarrow> [(''Authorization'', Plain (''Bearer '' @ AccessToken c)),
                              (''Dropbox-API-Arg'', Marshalled inp)]
                   | Some g \<Rightarrow> g [(''Authorization'', Plain (''Bearer '' @ AccessToken c)),
                                  (''Dropbox-API-Arg'', Marshalled inp)]),
                ReqBody = NoBody\<rparr>]"
  by (cases flt) (simp_all add: Client_pipe_def Let_def sent_HTTPClient_Do)

lemma wire_ListFolder:
  "map wire_path (sent (snd (snd (Files_ListFolder J c lf w)))) =
     map wire_path (sent w)
       @ [Some (JString (json_string
            (if ListFolderInput.Path lf = ''/'' then [] else ListFolderInput.Path lf)))]"
  using sent_Client_call [of J c "''/files/list_folder''"
      "json_ListFolderInput (lf\<lparr>ListFolderInput.Path := normalizePath (ListFolderInput.Path lf)\<rparr>)" w]
  by (auto simp: Files_ListFolder_def Let_def wire_path_def wire_arg_def normalizePath_def
      json_ListFolderInput_def split: prod.splits option.splits)

lemma wire_GetMetadata:
  "map wire_path (sent (snd (Files_GetMetadata J c gm w))) =
     map wire_path (sent w) @ [Some (JString (json_string (GetMetadataInput.Path gm)))]"
  using sent_Client_call [of J c "''/files/get_metadata''" "json_GetMetadataInput gm" w]
  by (auto simp: Files_GetMetadata_def wire_path_def wire_arg_def json_GetMetadataInput_def
      split: prod.splits option.splits)

lemma wire_Download:
  "map wire_path (sent (snd (Files_Download J c dl w))) =
     map wire_path (sent w) @ [Some (JString (json_string (DownloadInput.Path dl)))]"
  using sent_Client_download [of J c "''/files/download''" "json_DownloadInput dl" None w]
  by (auto simp: Files_Download_def wire_path_def wire_arg_def json_DownloadInput_def
      split: prod.splits option.splits)

lemma wire_Upload:
  "map wire_path (sent (snd (Files_Upload J c up w))) =
     map wire_path (sent w) @ [Some (JString (json_string (UploadInput.Path up)))]"
  using sent_Client_download [of J c "''/files/upload''" "json_UploadInput up" "Reader up" w]
  by (cases "Reader up")
     (auto simp: Files_Upload_def wire_path_def wire_arg_def json_UploadInput_def
      split: prod.splits option.splits)

lemma wire_ListFolderContinue:
  "map wire_arg (sent (snd (Files_ListFolderContinue J c lc w))) =
     map wire_arg (sent w)
       @ [Some (JObject [(''cursor'',
            JString (json_string (ListFolderContinueInput.Cursor lc)))])]"
  using sent_Client_call [of J c "''/files/list_folder/continue''"
      "json_ListFolderContinueInput lc" w]
  by (auto simp: Files_ListFolderContinue_def wire_path_def wire_arg_def
      json_ListFolderContinueInput_def split: prod.splits option.splits)

lemma wire_Stream:
  "map wire_path (sent (snd (Files_Stream c dl None w))) =
     map wire_path (sent w) @ [Some (JString (json_string (DownloadInput.Path dl)))]"
  by (simp add: Files_Stream_def sent_Client_pipe wire_path_def wire_arg_def
      json_DownloadInput_def)

lemma sent_Stream:
  "sent (snd (Files_Stream c dl (Some g) w)) =
     sent w @ [\<lparr>Method = ''POST'', URL = ''https://content.dropboxapi.com/2/files/download'',
                ReqHeader =
                  g [(''Authorization'', Plain (''Bearer '' @ AccessToken c)),
                     (''Dropbox-API-Arg'',
                      Marshalled (JObject [(''path'',
                        JString (json_string (DownloadInput.Path dl)))]))],
                ReqBody = NoBody\<rparr>]"
  by (simp add: Files_Stream_def sent_Client_pipe json_DownloadInput_def)

text \<open>
  C4, amended. Each operation sends one request. For input paths that are valid UTF-8:
  the request of list-folder carries the empty path when the input path is \<^verbatim>\<open>/\<close> and the
  input path otherwise; the requests of get-metadata, download, upload, stream-download
  and get-stream carry the input path as it is (a header filter given to the last two is
  handed the headers with that path); the request of list-folder-continue carries the
  cursor alone, as it is.
\<close>

theorem path_on_the_wire:
  assumes "utf8_ValidString (ListFolderInput.Path lf)"
    and "utf8_ValidString (GetMetadataInput.Path gm)"
    and "utf8_ValidString (DownloadInput.Path dl)"
    and "utf8_ValidString (UploadInput.Path up)"
    and "utf8_ValidString (ListFolderContinueInput.Cursor lc)"
    and "utf8_ValidString name"
  shows "map wire_path (sent (snd (snd (Files_ListFolder J c lf w)))) =
     map wire_path (sent w)
       @ [Some (JString (if ListFolderInput.Path lf = ''/'' then [] else ListFolderInput.Path lf))] \<and>
   map wire_path (sent (snd (Files_GetMetadata J c gm w))) =
     map wire_path (sent w) @ [Some (JString (GetMetadataInput.Path gm))] \<and>
   map wire_path (sent (snd (Files_Download J c dl w))) =
     map wire_path (sent w) @ [Some (JString (DownloadInput.Path dl))] \<and>
   map wire_path (sent (snd (Files_Upload J c up w))) =
     map wire_path (sent w) @ [Some (JString (UploadInput.Path up))] \<and>
   map wire_arg (sent (snd (Files_ListFolderContinue J c lc w))) =
     map wire_arg (sent w)
       @ [Some (JObject [(''cursor'', JString (ListFolderContinueInput.Cursor lc))])] \<and>
   map wire_path (sent (snd (Files_Stream c dl None w))) =
     map wire_path (sent w) @ [Some (JString (DownloadInput.Path dl))] \<and>
   map wire_path (sent (snd (Client_GetStream c name None w))) =
     map wire_path (sent w) @ [Some (JString name)] \<and>
   sent (snd (Files_Stream c dl (Some g) w)) =
     sent w @ [\<lparr>Method = ''POST'', URL = ''https://content.dropboxapi.com/2/files/download'',
                ReqHeader =
                  g [(''Authorization'', Plain (''Bearer '' @ AccessToken c)),
                     (''Dropbox-API-Arg'',
                      Marshalled (JObject [(''path'', JString (DownloadInput.Path dl))]))],
                ReqBody = NoBody\<rparr>] \<and>
   sent (snd (Client_GetStream c name (Some g) w)) =
     sent w @ [\<lparr>Method = ''POST'', URL = ''https://content.dropboxapi.com/2/files/download'',
                ReqHeader =
                  g [(''Authorization'', Plain (''Bearer '' @ AccessToken c)),
                     (''Dropbox-API-Arg'', Marshalled (JObject [(''path'', JString name)]))],
                ReqBody = NoBody\<rparr>]"
proof -
  have lf: "json_string (if ListFolderInput.Path lf = ''/'' then [] else ListFolderInput.Path lf) =
      (if ListFolderInput.Path lf = ''/'' then [] else ListFolderInput.Path lf)"
    using assms(1) by (simp add: json_string_valid)
  show ?thesis
    using wire_ListFolder [of J c lf w] wire_GetMetadata [of J c gm w] wire_Download [of J c dl w]
      wire_Upload [of J c up w] wire_ListFolderContinue [of J c lc w] wire_Stream [of c dl w]
      wire_Stream [of c "\<lparr>DownloadInput.Path = name\<rparr>" w] sent_Stream [of c dl g w]
      sent_Stream [of c "\<lparr>DownloadInput.Path = name\<rparr>" g w]
    by (simp add: lf json_string_valid assms Client_GetStream_def)
qed

theorem path_on_the_wire_witness:
  "map wire_path (sent (snd (snd (Files_ListFolder example_codec example_client
      \<lparr>ListFolderInput.Path = ''/'', Recursive = False,
       ListFolderInput.IncludeMediaInfo = False, IncludeDeleted = False\<rparr>
      \<lparr>script = [], sent = []\<rparr>)))) = [Some (JString [])] \<and>
   map wire_path (sent (snd (snd (Files_ListFolder example_codec example_client
      \<lparr>ListFolderInput.Path = ''/a'', Recursive = False,
       ListFolderInput.IncludeMediaInfo = False, IncludeDeleted = False\<rparr>
      \<lparr>script = [], sent = []\<rparr>)))) = [Some (JString ''/a'')] \<and>
   map wire_path (sent (snd (Files_GetMetadata example_codec example_client
      \<lparr>GetMetadataInput.Path = ''/'', GetMetadataInput.IncludeMediaInfo = False\<rparr>
      \<lparr>script = [], sent = []\<rparr>))) = [Some (JString ''/'')] \<and>
   map wire_path (sent (snd (Client_GetStream example_client ''/a.bin'' None
      \<lparr>script = [], sent = []\<rparr>))) = [Some (JString ''/a.bin'')]"
proof -
  have v: "utf8_ValidString ''/''" "utf8_ValidString ''/a''" "utf8_ValidString ''/a.bin''"
    "utf8_ValidString []"
    by (simp_all add: utf8_size_def)
  let ?lf = "\<lambda>p. \<lparr>ListFolderInput.Path = p, Recursive = False,
       ListFolderInput.IncludeMediaInfo = False, IncludeDeleted = False\<rparr>"
  let ?gm = "\<lparr>GetMetadataInput.Path = ''/'', GetMetadataInput.IncludeMediaInfo = False\<rparr>"
  let ?dl = "\<lparr>DownloadInput.Path = ''/a.bin''\<rparr>"
  let ?up = "\<lparr>Path = ''/a.bin'', Mode = WriteModeOverwrite, AutoRename = False, Mute = True,
       ClientModified = [], Reader = None\<rparr>"
  let ?lc = "\<lparr>ListFolderContinueInput.Cursor = []\<rparr>"
  have h: "utf8_ValidString (ListFolderInput.Path (?lf ''/''))"
    "utf8_ValidString (ListFolderInput.Path (?lf ''/a''))"
    "utf8_ValidString (GetMetadataInput.Path ?gm)"
    "utf8_ValidString (DownloadInput.Path ?dl)"
    "utf8_ValidString (UploadInput.Path ?up)"
    "utf8_ValidString (ListFolderContinueInput.Cursor ?lc)"
    using v by simp_all
  show ?thesis
    using path_on_the_wire [OF h(1) h(3) h(4) h(5) h(6) v(3), of example_codec example_client
        "\<lparr>script = [], sent = []\<rparr>"]
      path_on_the_wire [OF h(2) h(3) h(4) h(5) h(6) v(3), of example_codec example_client
        "\<lparr>script = [], sent = []\<rparr>"]
    by simp
qed

text \<open>
  C4 as stated fails on a path that is not valid UTF-8: for the path of the bytes
  \<^verbatim>\<open>/\<close> and FF, get-metadata sends \<^verbatim>\<open>/\<close> followed by U+FFFD.
\<close>

theorem path_on_the_wire_counterexample:
  "map wire_path (sent (snd (Files_GetMetadata example_codec example_client
      \<lparr>GetMetadataInput.Path = [CHR ''/'', CHR 0xFF],
       GetMetadataInput.IncludeMediaInfo = False\<rparr>
      \<lparr>script = [], sent = []\<rparr>))) =
     [Some (JString [CHR ''/'', CHR 0xEF, CHR 0xBF, CHR 0xBD])]"
  using wire_GetMetadata [of example_codec example_client
      "\<lparr>GetMetadataInput.Path = [CHR ''/'', CHR 0xFF],
        GetMetadataInput.IncludeMediaInfo = False\<rparr>" "\<lparr>script = [], sent = []\<rparr>"]
  by (simp add: utf8_size_def)

text \<open>
  C9. After list-folder the caller's input record holds the normalized path (the empty
  path for \<^verbatim>\<open>/\<close>) and every other field as before, whatever the call returns.
\<close>

theorem ListFolder_input_after:
  "fst (snd (Files_ListFolder J c inp w)) =
     inp\<lparr>ListFolderInput.Path :=
           (if ListFolderInput.Path inp = ''/'' then [] else ListFolderInput.Path inp)\<rparr>"
  by (simp add: Files_ListFolder_def Let_def normalizePath_def split: prod.splits option.splits)

theorem ListFolder_input_after_witness:
  "fst (snd (Files_ListFolder example_codec example_client
      \<lparr>ListFolderInput.Path = ''/'', Recursive = True,
       ListFolderInput.IncludeMediaInfo = False, IncludeDeleted = True\<rparr>
      \<lparr>script = [], sent = []\<rparr>)) =
     \<lparr>ListFolderInput.Path = [], Recursive = True,
      ListFolderInput.IncludeMediaInfo = False, IncludeDeleted = True\<rparr>"
  using ListFolder_input_after [of example_codec example_client
      "\<lparr>ListFolderInput.Path = ''/'', Recursive = True,
       ListFolderInput.IncludeMediaInfo = False, IncludeDeleted = True\<rparr>"
      "\<lparr>script = [], sent = []\<rparr>"]
  by simp

subsection \<open>The dispatcher\<close>

text \<open>
  C10. Stream-download and get-stream return the reply of the HTTP client as it is: a
  response of any status is returned with no error and undecoded, and the call fails
  only when the reply is a transport error.
\<close>

theorem Stream_raw_reply:
  "fst (Files_Stream c inp reqFilter (w\<lparr>script := r # rs\<rparr>)) = r \<and>
   fst (Client_GetStream c name reqFilter (w\<lparr>script := r # rs\<rparr>)) = r"
  by (simp add: Client_GetStream_def Files_Stream_def Client_pipe_def Let_def HTTPClient_Do_def)

theorem Stream_raw_reply_witness:
  "fst (Client_GetStream example_client ''/missing'' None
          \<lparr>script = [Inr (example_response 409 ''application/json'' example_not_found)],
           sent = []\<rparr>) =
     Inr (example_response 409 ''application/json'' example_not_found)"
  using Stream_raw_reply [where c = example_client and reqFilter = None
      and w = "\<lparr>script = [], sent = []\<rparr>"
      and r = "Inr (example_response 409 ''application/json'' example_not_found)"
      and rs = "[]" and name = "''/missing''"]
  by simp

text \<open>
  C7, amended. Below status 400 the dispatcher returns the body and the length with no
  error, the body unread. From 400 on it returns no body, in every case; when the body
  is read (a content type containing \<^verbatim>\<open>text/plain\<close>) without failure, or decoded as
  JSON (any other content type) without failure, the error is the service error with the
  status code, the status text and the summary or the payload; when the decoding fails
  the error is that failure, in place of the service error.
\<close>

theorem do_by_status:
  "(Response.StatusCode res < 400 \<longrightarrow>
      fst (Client_do J req (w\<lparr>script := Inr res # rs\<rparr>)) =
        (Some (Response.Body res), ContentLength res, None)) \<and>
   (400 \<le> Response.StatusCode res \<and>
    strings_Contains (Header_Get (Header res) ''Content-Type'') ''text/plain'' \<and>
    io_ReadAll (Response.Body res) = Inr b \<longrightarrow>
      fst (Client_do J req (w\<lparr>script := Inr res # rs\<rparr>)) =
        (None, 0, Some (ServiceError \<lparr>Status = StatusText (Response.StatusCode res),
                                      StatusCode = Response.StatusCode res,
                                      Summary = b, Payload = None\<rparr>))) \<and>
   (400 \<le> Response.StatusCode res \<and>
    \<not> strings_Contains (Header_Get (Header res) ''Content-Type'') ''text/plain'' \<longrightarrow>
      fst (Client_do J req (w\<lparr>script := Inr res # rs\<rparr>)) =
        (None, 0,
         Some (case Decode (dec_payload J) (Response.Body res) of
                 Inl err \<Rightarrow> err
               | Inr v \<Rightarrow>
                   ServiceError \<lparr>Status = StatusText (Response.StatusCode res),
                                 StatusCode = Response.StatusCode res,
                                 Summary = [], Payload = Some v\<rparr>))) \<and>
   (400 \<le> Response.StatusCode res \<longrightarrow>
      fst (fst (Client_do J req (w\<lparr>script := Inr res # rs\<rparr>))) = None)"
  by (simp add: Client_do_def HTTPClient_Do_def Let_def split: sum.splits)

theorem do_by_status_witness:
  "fst (Client_do example_codec
          \<lparr>Method = ''POST'', URL = ''https://content.dropboxapi.com/2/files/download'',
           ReqHeader = [], ReqBody = NoBody\<rparr>
          \<lparr>script = [Inr (example_response 200 ''application/octet-stream'' ''data'')],
           sent = []\<rparr>) =
     (Some (example_body ''data''), 4, None) \<and>
   fst (Client_do example_codec
          \<lparr>Method = ''POST'', URL = ''https://content.dropboxapi.com/2/files/download'',
           ReqHeader = [], ReqBody = NoBody\<rparr>
          \<lparr>script = [Inr (example_response 500 ''text/plain; charset=utf-8'' ''server overloaded'')],
           sent = []\<rparr>) =
     (None, 0, Some (ServiceError \<lparr>Status = ''Internal Server Error'', StatusCode = 500,
                                   Summary = ''server overloaded'', Payload = None\<rparr>)) \<and>
   fst (Client_do example_codec
          \<lparr>Method = ''POST'', URL = ''https://content.dropboxapi.com/2/files/download'',
           ReqHeader = [], ReqBody = NoBody\<rparr>
          \<lparr>script = [Inr (example_response 409 ''application/json'' example_not_found)],
           sent = []\<rparr>) =
     (None, 0, Some (ServiceError \<lparr>Status = ''Conflict'', StatusCode = 409, Summary = [],
                                   Payload = Some example_not_found_payload\<rparr>))"
proof -
  let ?req = "\<lparr>Method = ''POST'', URL = ''https://content.dropboxapi.com/2/files/download'',
           ReqHeader = [], ReqBody = NoBody\<rparr>"
  let ?w = "\<lparr>script = [], sent = []\<rparr>"
  have w: "\<And>r. \<lparr>script = [r], sent = []\<rparr> = ?w\<lparr>script := r # []\<rparr>"
    by simp
  show ?thesis
    unfolding w
    using do_by_status [where res = "example_response 200 ''application/octet-stream'' ''data''"
        and J = example_codec and req = ?req and w = ?w and rs = "[]"]
      do_by_status [where res = "example_response 500 ''text/plain; charset=utf-8'' ''server overloaded''"
        and J = example_codec and req = ?req and w = ?w and rs = "[]" and b = "''server overloaded''"]
      do_by_status [where res = "example_response 409 ''application/json'' example_not_found"
        and J = example_codec and req = ?req and w = ?w and rs = "[]"]
    by (simp add: example_response_def example_body_def Header_Get_def strings_Contains_def
        sublist_code io_ReadAll_def Decode_def Body_closed_def example_codec_def StatusText_def
        example_not_found_def)
qed

text \<open>
  The case that the amended statement leaves out: when the read of a \<^verbatim>\<open>text/plain\<close>
  body fails, the dispatcher returns a nil body with a nil error.
\<close>

lemma do_text_plain_read_fails:
  "400 \<le> Response.StatusCode res \<Longrightarrow>
   strings_Contains (Header_Get (Header res) ''Content-Type'') ''text/plain'' \<Longrightarrow>
   io_ReadAll (Response.Body res) = Inl rerr \<Longrightarrow>
   fst (Client_do J req (w\<lparr>script := Inr res # rs\<rparr>)) = (None, 0, None)"
  by (simp add: Client_do_def HTTPClient_Do_def Let_def)

lemma do_text_plain_read_fails_example:
  "fst (Client_do example_codec
          \<lparr>Method = ''POST'', URL = ''https://content.dropboxapi.com/2/files/download'',
           ReqHeader = [], ReqBody = NoBody\<rparr>
          \<lparr>script = [Inr ((example_response 500 ''text/plain'' ''server over'')
                           \<lparr>Response.Body := (example_body ''server over'')
                              \<lparr>failure := Some (ReadError ''unexpected EOF'')\<rparr>\<rparr>)],
           sent = []\<rparr>) =
     (None, 0, None)"
  by (simp add: Client_do_def HTTPClient_Do_def Let_def example_response_def example_body_def
      Header_Get_def strings_Contains_def sublist_code io_ReadAll_def Body_closed_def)

text \<open>
  C7 as stated fails: a response of status 502 with an empty body that is not plain
  text makes the dispatcher return \<^verbatim>\<open>io.EOF\<close>, the failure of the JSON decoder, and no
  service error.
\<close>

theorem do_empty_body_counterexample:
  "fst (Client_do example_codec
          \<lparr>Method = ''POST'', URL = ''https://api.dropboxapi.com/2/files/get_metadata'',
           ReqHeader = [], ReqBody = NoBody\<rparr>
          \<lparr>script = [Inr (example_response 502 ''text/html'' [])], sent = []\<rparr>) =
     (None, 0, Some EOF)"
  by (simp add: Client_do_def HTTPClient_Do_def Let_def example_response_def example_body_def
      Header_Get_def strings_Contains_def sublist_code Decode_def Body_closed_def)

subsection \<open>The file handle\<close>

text \<open>
  C8. Close on a handle whose closed flag is set returns the path error of op
  \<^verbatim>\<open>close\<close> with the handle's path and \<^verbatim>\<open>EINVAL\<close>, and leaves the handle as it is.
\<close>

theorem Close_closed:
  "closed f \<Longrightarrow> File_Close f = (Some (PathError ''close'' (File.Name f) EINVAL), f)"
  by (simp add: File_Close_def)

theorem Close_closed_witness:
  "closed (snd (File_Close (Client_Open example_client ''/hello.txt''))) \<and>
   File_Close (snd (File_Close (Client_Open example_client ''/hello.txt''))) =
     (Some (PathError ''close'' ''/hello.txt'' EINVAL),
      snd (File_Close (Client_Open example_client ''/hello.txt'')))"
proof -
  have h: "closed (snd (File_Close (Client_Open example_client ''/hello.txt'')))"
    by (simp add: File_Close_def Client_Open_def)
  have n: "File.Name (snd (File_Close (Client_Open example_client ''/hello.txt''))) = ''/hello.txt''"
    by (simp add: File_Close_def Client_Open_def)
  show ?thesis
    using h Close_closed [OF h] by (simp add: n)
qed

text \<open>
  C3. On a handle that holds no body, when the download fails with \<open>err\<close>: the read
  returns no bytes and, if the text of \<open>err\<close> begins with \<^verbatim>\<open>path/not_found/\<close>, the path
  error of op \<^verbatim>\<open>open\<close> with the handle's path and \<^verbatim>\<open>ENOENT\<close> in place of \<open>err\<close>;
  otherwise \<open>err\<close> itself.
\<close>

theorem first_Read_download_fails:
  assumes "reader f = None"
    and "fst (Files_Download J (client f) \<lparr>DownloadInput.Path = File.Name f\<rparr> (http rt)) = Inl err"
  shows "fst (File_Read J f n rt) =
           ([], Some (if strings_HasPrefix (error_Error err) ''path/not_found/''
                      then PathError ''open'' (File.Name f) ENOENT else err))"
  using assms
  by (auto simp: File_Read_def File_download_def split: prod.splits sum.splits)

lemma example_missing_download:
  "fst (Files_Download example_codec example_client \<lparr>DownloadInput.Path = ''/missing''\<rparr>
          (http example_missing)) =
     Inl (ServiceError \<lparr>Status = ''Conflict'', StatusCode = 409, Summary = [],
                        Payload = Some example_not_found_payload\<rparr>)"
  by (simp add: Files_Download_def Client_download_def Client_do_def HTTPClient_Do_def Let_def
      example_missing_def example_response_def example_body_def example_codec_def
      Header_Get_def strings_Contains_def sublist_code Decode_def Body_closed_def StatusText_def
      example_not_found_def)

theorem first_Read_download_fails_witness:
  "fst (File_Read example_codec (Client_Open example_client ''/missing'') 16 example_missing) =
     ([], Some (PathError ''open'' ''/missing'' ENOENT))"
proof -
  have r: "reader (Client_Open example_client ''/missing'') = None"
    by (simp add: Client_Open_def)
  have d: "fst (Files_Download example_codec (client (Client_Open example_client ''/missing''))
             \<lparr>DownloadInput.Path = File.Name (Client_Open example_client ''/missing'')\<rparr>
             (http example_missing)) =
     Inl (ServiceError \<lparr>Status = ''Conflict'', StatusCode = 409, Summary = [],
                        Payload = Some example_not_found_payload\<rparr>)"
    using example_missing_download by (simp add: Client_Open_def)
  show ?thesis
    using first_Read_download_fails [OF r d, of 16]
    by (simp add: strings_HasPrefix_def Error_Error_def Client_Open_def
        example_not_found_payload_def)
qed

text \<open>Read and Write do the same on a handle whatever its closed flag says.\<close>

lemma Read_ignores_closed:
  "File_Read J (f\<lparr>closed := x\<rparr>) n rt =
     (case File_Read J f n rt of (r, f', rt') \<Rightarrow> (r, f'\<lparr>closed := x\<rparr>, rt'))"
  by (auto simp: File_Read_def File_download_def Let_def split: prod.splits sum.splits
      option.splits)

lemma Write_ignores_closed:
  "File_Write J (f\<lparr>closed := x\<rparr>) b rt =
     (case File_Write J f b rt of (r, f', rt') \<Rightarrow> (r, f'\<lparr>closed := x\<rparr>, rt'))"
  by (auto simp: File_Write_def uploader_def Let_def split: prod.splits)

text \<open>
  C2. The code at an opened and closed handle: a Read downloads the file and returns
  its first bytes with no error; a Write launches the upload, whose request goes out,
  and returns the length of its bytes with no error; the next Close fails before it
  reaches the pipe, so the write end stays open and the upload never reads its body to
  the end.
\<close>

theorem closed_handle_operations:
  "fst (File_run example_codec [Close, Read 2]
          (Client_Open example_client ''/a.bin'', example_download)) =
     [CloseResult None, ReadResult ''da'' None] \<and>
   fst (File_run example_codec [Close, Write ''hello'', Close]
          (Client_Open example_client ''/hello.txt'', example_upload)) =
     [CloseResult None, WriteResult 5 None,
      CloseResult (Some (PathError ''close'' ''/hello.txt'' EINVAL))] \<and>
   map URL (sent (http (snd (snd (File_run example_codec [Close, Write ''hello'', Close]
          (Client_Open example_client ''/hello.txt'', example_upload)))))) =
     [''https://content.dropboxapi.com/2/files/upload''] \<and>
   \<not> wclosed (pipe (fst (snd (File_run example_codec [Close, Write ''hello'', Close]
          (Client_Open example_client ''/hello.txt'', example_upload))))) \<and>
   PipeReader_body (pipe (fst (snd (File_run example_codec [Close, Write ''hello'', Close]
          (Client_Open example_client ''/hello.txt'', example_upload))))) = None"
  by (simp add: Client_Open_def example_download_def example_upload_def File_Close_def
      File_Read_def File_download_def Files_Download_def Files_Upload_def Client_download_def
      Client_do_def HTTPClient_Do_def example_response_def example_body_def Body_Read_def
      Body_closed_def Decode_def example_codec_def File_Write_def uploader_def
      reader_starts_def PipeWriter_Write_def PipeReader_body_def Let_def)

subsection \<open>Writing and closing\<close>

lemma File_run_append:
  "File_run J (xs @ ys) (f, rt) =
     (case File_run J xs (f, rt) of
        (rs, f', rt') \<Rightarrow>
          if WriteBlocked \<in> set rs then (rs, f', rt')
          else (case File_run J ys (f', rt') of (rs', f'', rt'') \<Rightarrow> (rs @ rs', f'', rt'')))"
  by (induction xs arbitrary: f rt) (auto split: prod.splits)

lemma writes_run:
  "\<not> wclosed (pipe f) \<Longrightarrow> rclosed (pipe f) = None \<Longrightarrow> reading (pipe f) = Some (None, err) \<Longrightarrow>
   writing f \<Longrightarrow>
   File_run J (map Write chunks) (f, rt) =
     (map (\<lambda>b. WriteResult (length b) None) chunks,
      f\<lparr>pipe := (pipe f)\<lparr>stream := stream (pipe f) @ concat chunks\<rparr>\<rparr>, rt)"
  by (induction chunks arbitrary: f)
     (auto simp: File_Write_def PipeWriter_Write_def Let_def)

text \<open>
  C1, amended. On an open handle that has not written and whose path is valid UTF-8,
  against an HTTP client that reads a request body to its end: one or more writes
  followed by Close return the lengths of their bytes; exactly one request has gone to
  the HTTP client, the POST to the upload endpoint with the record of the handle's path,
  mode \<^verbatim>\<open>overwrite\<close>, autorename false and mute true in \<^verbatim>\<open>Dropbox-API-Arg\<close> and the read
  end of the pipe as its body; and the body the client has read to its end is exactly
  the bytes written, in their order.
\<close>

theorem write_then_Close:
  assumes "chunks \<noteq> []"
    and "\<not> closed f" and "\<not> writing f"
    and "pipe f = \<lparr>stream = [], wclosed = False, rclosed = None, reading = None,
                    eof_seen = False\<rparr>"
    and "body_reads rt = None"
    and "utf8_ValidString (File.Name f)"
  shows "fst (File_run J (map Write chunks @ [Close]) (f, rt)) =
           map (\<lambda>b. WriteResult (length b) None) chunks
             @ [CloseResult (case reader f of None \<Rightarrow> None | Some body \<Rightarrow> close_err body)] \<and>
         sent (http (snd (snd (File_run J (map Write chunks @ [Close]) (f, rt))))) =
           sent (http rt) @
             [\<lparr>Method = ''POST'', URL = ''https://content.dropboxapi.com/2/files/upload'',
               ReqHeader = [(''Authorization'', Plain (''Bearer '' @ AccessToken (client f))),
                            (''Dropbox-API-Arg'',
                             Marshalled (JObject [(''path'', JString (File.Name f)),
                                                  (''mode'', JString ''overwrite''),
                                                  (''autorename'', JBool False),
                                                  (''mute'', JBool True)])),
                            (''Content-Type'', Plain ''application/octet-stream'')],
               ReqBody = ReaderBody PipeReader\<rparr>] \<and>
         PipeReader_body (pipe (fst (snd (File_run J (map Write chunks @ [Close]) (f, rt))))) =
           Some (concat chunks)"
proof -
  from assms(1) obtain b bs where chunks: "chunks = b # bs"
    by (cases chunks) auto
  let ?up = "\<lparr>Path = File.Name f, Mode = ''overwrite'', AutoRename = False, Mute = True,
             ClientModified = [], Reader = Some PipeReader\<rparr>"
  let ?r = "Files_Upload J (client f) ?up (http rt)"
  let ?err = "case fst ?r of Inl e \<Rightarrow> Some e | Inr out \<Rightarrow> None"
  let ?rt1 = "rt\<lparr>http := snd ?r\<rparr>"
  let ?f0 = "f\<lparr>writing := True,
               pipe := \<lparr>stream = [], wclosed = False, rclosed = None,
                        reading = Some (None, ?err), eof_seen = False\<rparr>\<rparr>"
  let ?f2 = "f\<lparr>writing := True,
               pipe := \<lparr>stream = concat chunks, wclosed = False, rclosed = None,
                        reading = Some (None, ?err), eof_seen = False\<rparr>\<rparr>"
  let ?f3 = "f\<lparr>writing := True, closed := True,
               pipe := \<lparr>stream = concat chunks, wclosed = True,
                        rclosed = Some (case ?err of None \<Rightarrow> ErrClosedPipe | Some e \<Rightarrow> e),
                        reading = None, eof_seen = True\<rparr>,
               reader := (case reader f of None \<Rightarrow> None
                          | Some body \<Rightarrow> Some (body\<lparr>bclosed := True\<rparr>))\<rparr>"
  have launch: "uploader J (f\<lparr>writing := True\<rparr>) rt = (?f0, ?rt1)"
    using assms(4,5)
    by (simp add: uploader_def reader_starts_def WriteModeOverwrite_def split: prod.splits)
  have first: "File_step J (Write b) (f, rt) =
      (WriteResult (length b) None, ?f0\<lparr>pipe := (pipe ?f0)\<lparr>stream := b\<rparr>\<rparr>, ?rt1)"
    using assms(3) by (simp add: File_Write_def launch PipeWriter_Write_def)
  have rest: "File_run J (map Write bs) (?f0\<lparr>pipe := (pipe ?f0)\<lparr>stream := b\<rparr>\<rparr>, ?rt1) =
      (map (\<lambda>b. WriteResult (length b) None) bs,
       (?f0\<lparr>pipe := (pipe ?f0)\<lparr>stream := b\<rparr>\<rparr>)
         \<lparr>pipe := (pipe (?f0\<lparr>pipe := (pipe ?f0)\<lparr>stream := b\<rparr>\<rparr>))
            \<lparr>stream := stream (pipe (?f0\<lparr>pipe := (pipe ?f0)\<lparr>stream := b\<rparr>\<rparr>)) @ concat bs\<rparr>\<rparr>,
       ?rt1)"
    by (rule writes_run [where err = ?err]) simp_all
  have writes: "File_run J (map Write chunks) (f, rt) =
      (map (\<lambda>b. WriteResult (length b) None) chunks, ?f2, ?rt1)"
    using first rest by (simp add: chunks)
  have close: "File_Close ?f2 =
      (case reader f of None \<Rightarrow> None | Some body \<Rightarrow> close_err body, ?f3)"
    using assms(2)
    by (simp add: File_Close_def PipeWriter_Close_def reader_ends_def
        PipeReader_CloseWithError_def Body_Close_def split: option.splits)
  have blocked: "WriteBlocked \<notin> set (map (\<lambda>b. WriteResult (length b) None) chunks)"
    by auto
  have run: "File_run J (map Write chunks @ [Close]) (f, rt) =
     (map (\<lambda>b. WriteResult (length b) None) chunks
        @ [CloseResult (case reader f of None \<Rightarrow> None | Some body \<Rightarrow> close_err body)],
      ?f3, ?rt1)"
    using blocked by (simp add: File_run_append writes close)
  have up: "sent (snd ?r) =
      sent (http rt) @
        [\<lparr>Method = ''POST'', URL = ''https://content.dropboxapi.com/2/files/upload'',
          ReqHeader = [(''Authorization'', Plain (''Bearer '' @ AccessToken (client f))),
                       (''Dropbox-API-Arg'',
                        Marshalled (JObject [(''path'', JString (File.Name f)),
                                             (''mode'', JString ''overwrite''),
                                             (''autorename'', JBool False),
                                             (''mute'', JBool True)])),
                       (''Content-Type'', Plain ''application/octet-stream'')],
          ReqBody = ReaderBody PipeReader\<rparr>]"
    using sent_Client_download [of J "client f" "''/files/upload''" "json_UploadInput ?up"
        "Reader ?up" "http rt"] assms(6)
    by (auto simp: Files_Upload_def json_UploadInput_def json_string_valid utf8_size_def
        split: prod.splits option.splits)
  show ?thesis
    using up by (simp add: run PipeReader_body_def)
qed

theorem write_then_Close_witness:
  "fst (File_run example_codec [Write ''hel'', Write ''lo'', Close]
          (Client_Open example_client ''/hello.txt'', example_upload)) =
     [WriteResult 3 None, WriteResult 2 None, CloseResult None] \<and>
   sent (http (snd (snd (File_run example_codec [Write ''hel'', Write ''lo'', Close]
          (Client_Open example_client ''/hello.txt'', example_upload))))) =
     [\<lparr>Method = ''POST'', URL = ''https://content.dropboxapi.com/2/files/upload'',
       ReqHeader = [(''Authorization'', Plain ''Bearer token''),
                    (''Dropbox-API-Arg'',
                     Marshalled (JObject [(''path'', JString ''/hello.txt''),
                                          (''mode'', JString ''overwrite''),
                                          (''autorename'', JBool False),
                                          (''mute'', JBool True)])),
                    (''Content-Type'', Plain ''application/octet-stream'')],
       ReqBody = ReaderBody PipeReader\<rparr>] \<and>
   PipeReader_body
     (pipe (fst (snd (File_run example_codec [Write ''hel'', Write ''lo'', Close]
          (Client_Open example_client ''/hello.txt'', example_upload))))) =
     Some ''hello''"
proof -
  let ?f = "Client_Open example_client ''/hello.txt''"
  have h1: "[''hel'', ''lo''] \<noteq> []"
    and h2: "\<not> closed ?f" and h3: "\<not> writing ?f"
    and h4: "pipe ?f = \<lparr>stream = [], wclosed = False, rclosed = None, reading = None,
                         eof_seen = False\<rparr>"
    and h5: "body_reads example_upload = None"
    and h6: "utf8_ValidString (File.Name ?f)"
    by (simp_all add: Client_Open_def example_upload_def utf8_size_def)
  show ?thesis
    using write_then_Close [OF h1 h2 h3 h4 h5 h6, of example_codec]
    by (simp add: example_upload_def Client_Open_def example_client_def)
qed

text \<open>
  C1 as stated fails. On a handle whose path, the bytes \<^verbatim>\<open>/\<close> and FF, is not valid
  UTF-8, the header carries \<^verbatim>\<open>/\<close> followed by U+FFFD in place of the handle's path. And
  when the HTTP client reads two bytes of the request body and returns, the write of
  five bytes returns 2 with the error of the closed pipe, and the body of the upload is
  the first two bytes, not read to an end.
\<close>

theorem write_then_Close_counterexample:
  "map wire_path (sent (http (snd (snd (File_run example_codec [Write ''hello'', Close]
          (Client_Open example_client [CHR ''/'', CHR 0xFF], example_upload)))))) =
     [Some (JString [CHR ''/'', CHR 0xEF, CHR 0xBF, CHR 0xBD])] \<and>
   fst (File_run example_codec [Write ''hello'', Close]
          (Client_Open example_client ''/hello.txt'', example_short_upload)) =
     [WriteResult 2 (Some ErrClosedPipe), CloseResult None] \<and>
   stream (pipe (fst (snd (File_run example_codec [Write ''hello'', Close]
          (Client_Open example_client ''/hello.txt'', example_short_upload))))) = ''he'' \<and>
   PipeReader_body (pipe (fst (snd (File_run example_codec [Write ''hello'', Close]
          (Client_Open example_client ''/hello.txt'', example_short_upload))))) = None"
  by (simp add: Client_Open_def example_upload_def example_short_upload_def File_Close_def
      Files_Upload_def Client_download_def Client_do_def HTTPClient_Do_def
      example_response_def example_body_def Body_closed_def Decode_def example_codec_def
      File_Write_def uploader_def reader_starts_def reader_ends_def PipeWriter_Write_def
      PipeWriter_Close_def PipeReader_CloseWithError_def PipeReader_body_def Let_def
      wire_path_def wire_arg_def json_UploadInput_def utf8_size_def WriteModeOverwrite_def)

subsection \<open>The listing\<close>

lemma call_listing_reply:
  assumes "script w = r # rs" and "listing_reply J r p"
  shows "\<exists>body w'. Client_call J c path inp w = ((Some body, None), w') \<and>
           Decode (dec_listing J) body = Inr (Some p) \<and> script w' = rs \<and>
           length (sent w') = Suc (length (sent w))"
  using assms
  by (auto simp: listing_reply_def Client_call_def Client_do_def HTTPClient_Do_def Let_def
      split: sum.splits)

lemma ListFolder_listing_reply:
  assumes "script w = r # rs" and "listing_reply J r p"
  shows "\<exists>inp' w'. Files_ListFolder J c inp w = (Inr (Some p), inp', w') \<and> script w' = rs \<and>
           length (sent w') = Suc (length (sent w))"
  using call_listing_reply [OF assms, of c "''/files/list_folder''"
      "json_ListFolderInput (inp\<lparr>ListFolderInput.Path := normalizePath (ListFolderInput.Path inp)\<rparr>)"]
  by (auto simp: Files_ListFolder_def Let_def)

lemma ListFolderContinue_listing_reply:
  assumes "script w = r # rs" and "listing_reply J r p"
  shows "\<exists>w'. Files_ListFolderContinue J c inp w = (Inr (Some p), w') \<and> script w' = rs \<and>
           length (sent w') = Suc (length (sent w))"
  using call_listing_reply [OF assms, of c "''/files/list_folder/continue''"
      "json_ListFolderContinueInput inp"]
  by (auto simp: Files_ListFolderContinue_def)

lemma next_page_listing_reply:
  assumes "script w = r # rs" and "listing_reply J r p"
  shows "\<exists>w'. (if cursor = [] then
              (case Files_ListFolder J c
                      \<lparr>ListFolderInput.Path = name, Recursive = False,
                       ListFolderInput.IncludeMediaInfo = False, IncludeDeleted = False\<rparr> w of
                 (r, inp, w') \<Rightarrow> (r, w'))
            else Files_ListFolderContinue J c \<lparr>ListFolderContinueInput.Cursor = cursor\<rparr> w)
          = (Inr (Some p), w') \<and> script w' = rs \<and> length (sent w') = Suc (length (sent w))"
  using ListFolder_listing_reply [OF assms, of c "\<lparr>ListFolderInput.Path = name, Recursive = False,
                       ListFolderInput.IncludeMediaInfo = False, IncludeDeleted = False\<rparr>"]
    ListFolderContinue_listing_reply [OF assms, of c "\<lparr>ListFolderContinueInput.Cursor = cursor\<rparr>"]
  by auto

lemma ListN_loop_pages:
  assumes "list_all2 (listing_reply J) rs pages"
    and "pages \<noteq> []"
    and "\<forall>p \<in> set (butlast pages). HasMore p"
    and "\<not> HasMore (last pages)"
    and "script w = rs @ rest"
    and "0 \<le> n \<longrightarrow> int (length acc) < n"
  shows "\<exists>k w'. ListN_loop J c name n cursor acc w =
            (ListN_return n (if 0 \<le> n then take (nat n) (acc @ entries_of pages)
                             else acc @ entries_of pages), w') \<and>
           0 < k \<and> k \<le> length pages \<and>
           script w' = drop k rs @ rest \<and>
           length (sent w') = length (sent w) + k \<and>
           (k = length pages \<or> (0 \<le> n \<and> n \<le> int (length (acc @ entries_of (take k pages))))) \<and>
           (0 \<le> n \<longrightarrow> int (length (acc @ entries_of (take (k - 1) pages))) < n)"
  using assms
proof (induction rs pages arbitrary: cursor acc w rule: list_all2_induct)
  case Nil
  then show ?case by simp
next
  case (Cons r rs p ps)
  let ?list = "acc @ map FileInfo (Entries p)"
  from Cons.prems(4) have sw: "script w = r # (rs @ rest)"
    by simp
  from next_page_listing_reply [OF sw Cons.hyps(1), of cursor c name]
  obtain w1 where np: "(if cursor = [] then
              (case Files_ListFolder J c
                      \<lparr>ListFolderInput.Path = name, Recursive = False,
                       ListFolderInput.IncludeMediaInfo = False, IncludeDeleted = False\<rparr> w of
                 (r, inp, w') \<Rightarrow> (r, w'))
            else Files_ListFolderContinue J c \<lparr>ListFolderContinueInput.Cursor = cursor\<rparr> w)
          = (Inr (Some p), w1)"
    and s1: "script w1 = rs @ rest" and l1: "length (sent w1) = Suc (length (sent w))"
    by blast
  have unfold: "ListN_loop J c name n cursor acc w =
      (if n \<ge> 0 \<and> int (length ?list) \<ge> n then (ListN_return n (take (nat n) ?list), w1)
       else if \<not> HasMore p then (ListN_return n ?list, w1)
       else ListN_loop J c name n (ListFolderOutput.Cursor p) ?list w1)"
    by (subst ListN_loop.simps) (simp only: np Let_def prod.case sum.case option.case)
  show ?case
  proof (cases "n \<ge> 0 \<and> int (length ?list) \<ge> n")
    case True
    then have "nat n \<le> length ?list"
      by linarith
    then have "take (nat n) (acc @ entries_of (p # ps)) = take (nat n) ?list"
      by (simp add: entries_of_def)
    with True unfold s1 l1 Cons.prems(5) show ?thesis
      by (intro exI [of _ 1] exI [of _ w1]) (simp add: entries_of_def)
  next
    case False
    show ?thesis
    proof (cases "HasMore p")
      case no: False
      have "ps = []"
      proof (rule ccontr)
        assume "ps \<noteq> []"
        then have "p \<in> set (butlast (p # ps))" by simp
        with Cons.prems(2) no show False by blast
      qed
      with False no unfold s1 l1 Cons.prems(5) show ?thesis
        by (intro exI [of _ 1] exI [of _ w1]) (auto simp: entries_of_def)
    next
      case more: True
      have ps: "ps \<noteq> []"
        using Cons.prems(3) more by auto
      have a: "\<forall>p \<in> set (butlast ps). HasMore p"
        using Cons.prems(2) ps by simp
      have b: "\<not> HasMore (last ps)"
        using Cons.prems(3) ps by simp
      have c: "0 \<le> n \<longrightarrow> int (length ?list) < n"
        using False by auto
      from Cons.IH [OF ps a b s1 c, of "ListFolderOutput.Cursor p"]
      obtain k w' where
        run: "ListN_loop J c name n (ListFolderOutput.Cursor p) ?list w1 =
            (ListN_return n (if 0 \<le> n then take (nat n) (?list @ entries_of ps)
                             else ?list @ entries_of ps), w')"
        and k: "0 < k" "k \<le> length ps"
        and sc: "script w' = drop k rs @ rest"
        and se: "length (sent w') = length (sent w1) + k"
        and stop: "k = length ps \<or> (0 \<le> n \<and> n \<le> int (length (?list @ entries_of (take k ps))))"
        and before: "0 \<le> n \<longrightarrow> int (length (?list @ entries_of (take (k - 1) ps))) < n"
        by blast
      have e: "acc @ entries_of (p # ps) = ?list @ entries_of ps"
         and e1: "\<And>j. acc @ entries_of (take (Suc j) (p # ps)) = ?list @ entries_of (take j ps)"
        by (simp_all add: entries_of_def)
      from k have k1: "Suc k - 1 = Suc (k - 1)" by simp
      show ?thesis
        apply (intro exI [of _ "Suc k"] exI [of _ w'])
        using False more unfold run k sc se l1 stop before
        apply (simp only: e e1 k1)
        apply auto
        done
    qed
  qed
qed


lemma ListN_pages:
  assumes "list_all2 (listing_reply J) rs pages"
    and "pages \<noteq> []"
    and "\<forall>p \<in> set (butlast pages). HasMore p"
    and "\<not> HasMore (last pages)"
    and "script w = rs @ rest"
  shows "\<exists>k w'. Client_ListN J c name n w =
            (ListN_return (if n \<le> 0 then - 1 else n)
               (if 0 < n then take (nat n) (entries_of pages) else entries_of pages), w') \<and>
           0 < k \<and> k \<le> length pages \<and>
           script w' = drop k rs @ rest \<and>
           length (sent w') = length (sent w) + k \<and>
           (k = length pages \<or> (0 < n \<and> n \<le> int (length (entries_of (take k pages))))) \<and>
           (0 < n \<longrightarrow> int (length (entries_of (take (k - 1) pages))) < n)"
proof -
  let ?n = "if n \<le> 0 then - 1 else n"
  have "0 \<le> ?n \<longrightarrow> int (length ([] :: FileInfo list)) < ?n"
    by simp
  from ListN_loop_pages [OF assms this, of c name "[]"]
  show ?thesis
    by (cases "n \<le> 0") (auto simp: Client_ListN_def Let_def)
qed

text \<open>
  C5. With a cap \<open>n > 0\<close>, against a service whose replies carry the pages of a listing
  (every page but the last reporting more): list-up-to-n returns the first
  \<open>min n total\<close> entries of the pages in the service's order, with \<^verbatim>\<open>io.EOF\<close> exactly when
  there is none. It fetches \<open>k\<close> pages and no more: fewer than \<open>n\<close> entries were
  collected before the last of them, and either it is the last page or \<open>n\<close> entries
  are collected with it.
\<close>

theorem ListN_cap:
  assumes "0 < n"
    and "list_all2 (listing_reply J) rs pages"
    and "pages \<noteq> []"
    and "\<forall>p \<in> set (butlast pages). HasMore p"
    and "\<not> HasMore (last pages)"
    and "script w = rs @ rest"
  shows "\<exists>k w'. Client_ListN J c name n w =
            ((take (nat n) (entries_of pages),
              if entries_of pages = [] then Some EOF else None), w') \<and>
           length (take (nat n) (entries_of pages)) = min (nat n) (length (entries_of pages)) \<and>
           0 < k \<and> k \<le> length pages \<and>
           script w' = drop k rs @ rest \<and>
           length (sent w') = length (sent w) + k \<and>
           (k = length pages \<or> n \<le> int (length (entries_of (take k pages)))) \<and>
           int (length (entries_of (take (k - 1) pages))) < n"
proof -
  from ListN_pages [OF assms(2-6), of c name n] assms(1)
  obtain k w' where
    run: "Client_ListN J c name n w =
            (ListN_return n (take (nat n) (entries_of pages)), w')"
    and k: "0 < k" "k \<le> length pages" "script w' = drop k rs @ rest"
      "length (sent w') = length (sent w) + k"
      "k = length pages \<or> n \<le> int (length (entries_of (take k pages)))"
      "int (length (entries_of (take (k - 1) pages))) < n"
    by auto
  have "ListN_return n (take (nat n) (entries_of pages)) =
      (take (nat n) (entries_of pages), if entries_of pages = [] then Some EOF else None)"
    using assms(1) by (auto simp: ListN_return_def)
  with run k show ?thesis
    by auto
qed

lemma example_listing_replies:
  "list_all2 (listing_reply example_codec) example_listing example_pages"
  by (simp add: example_listing_def example_pages_def listing_reply_def example_response_def
      example_body_def Body_closed_def Decode_def example_codec_def)

theorem ListN_cap_witness:
  "fst (Client_ListN example_codec example_client ''/'' 5
          \<lparr>script = example_listing, sent = []\<rparr>) =
     (map (\<lambda>name. FileInfo (example_entry ''file'' name)) [''a'', ''b'', ''c'', ''d'', ''e''],
      None)"
proof -
  have h1: "(0::int) < 5"
    by simp
  have h3: "example_pages \<noteq> []"
    and h4: "\<forall>p \<in> set (butlast example_pages). HasMore p"
    and h5: "\<not> HasMore (last example_pages)"
    by (simp_all add: example_pages_def)
  have h6: "script \<lparr>script = example_listing, sent = []\<rparr> = example_listing @ []"
    by simp
  from ListN_cap [OF h1 example_listing_replies h3 h4 h5 h6, of example_client "''/''"]
  obtain w' where "Client_ListN example_codec example_client ''/'' 5
          \<lparr>script = example_listing, sent = []\<rparr> =
        ((take (nat 5) (entries_of example_pages),
          if entries_of example_pages = [] then Some EOF else None), w')"
    by blast
  then show ?thesis
    by (simp add: entries_of_def example_pages_def)
qed

text \<open>
  C6, amended. Against a listing without entries, list-up-to-n with a positive cap
  fails with \<^verbatim>\<open>io.EOF\<close>; with a cap \<open>n \<le> 0\<close>, which asks for all entries, it returns the
  empty sequence and no error.
\<close>

theorem ListN_empty:
  assumes "list_all2 (listing_reply J) rs pages"
    and "pages \<noteq> []"
    and "\<forall>p \<in> set (butlast pages). HasMore p"
    and "\<not> HasMore (last pages)"
    and "script w = rs @ rest"
    and "entries_of pages = []"
  shows "fst (Client_ListN J c name n w) = ([], if 0 < n then Some EOF else None)"
proof -
  from ListN_pages [OF assms(1-5), of c name n]
  obtain w' where "Client_ListN J c name n w =
            (ListN_return (if n \<le> 0 then - 1 else n)
               (if 0 < n then take (nat n) (entries_of pages) else entries_of pages), w')"
    by blast
  then show ?thesis
    using assms(6) by (auto simp: ListN_return_def)
qed

lemma example_empty_replies:
  "list_all2 (listing_reply example_codec) example_empty_listing
     [\<lparr>ListFolderOutput.Cursor = ''c0'', HasMore = False, Entries = []\<rparr>]"
  by (simp add: example_empty_listing_def listing_reply_def example_response_def
      example_body_def Body_closed_def Decode_def example_codec_def)

theorem ListN_empty_witness:
  "fst (Client_ListN example_codec example_client ''/'' 10
          \<lparr>script = example_empty_listing, sent = []\<rparr>) = ([], Some EOF)"
proof -
  let ?pages = "[\<lparr>ListFolderOutput.Cursor = ''c0'', HasMore = False, Entries = []\<rparr>]"
  have h2: "?pages \<noteq> []" and h3: "\<forall>p \<in> set (butlast ?pages). HasMore p"
    and h4: "\<not> HasMore (last ?pages)" and h6: "entries_of ?pages = []"
    by (simp_all add: entries_of_def)
  have h5: "script \<lparr>script = example_empty_listing, sent = []\<rparr> = example_empty_listing @ []"
    by simp
  show ?thesis
    using ListN_empty [OF example_empty_replies h2 h3 h4 h5 h6, of example_client "''/''" 10]
    by simp
qed

text \<open>
  C6 as stated fails at the cap 0, which is non-negative: the empty listing is returned
  with a nil error.
\<close>

theorem ListN_zero_cap_counterexample:
  "fst (Client_ListN example_codec example_client ''/'' 0
          \<lparr>script = example_empty_listing, sent = []\<rparr>) = ([], None)"
proof -
  let ?pages = "[\<lparr>ListFolderOutput.Cursor = ''c0'', HasMore = False, Entries = []\<rparr>]"
  have h2: "?pages \<noteq> []" and h3: "\<forall>p \<in> set (butlast ?pages). HasMore p"
    and h4: "\<not> HasMore (last ?pages)"
    by simp_all
  have h5: "script \<lparr>script = example_empty_listing, sent = []\<rparr> = example_empty_listing @ []"
    by simp
  from ListN_pages [OF example_empty_replies h2 h3 h4 h5, of example_client "''/''" 0]
  obtain w' where "Client_ListN example_codec example_client ''/'' 0
          \<lparr>script = example_empty_listing, sent = []\<rparr> =
        (ListN_return (- 1) (entries_of ?pages), w')"
    by auto
  then show ?thesis
    by (simp add: ListN_return_def entries_of_def)
qed

end
